theory Spec2Isabelle
  imports
    Main
    "HOL-Library.Sublist"
    "HOL-Library.Multiset"
    "HOL-Library.Char_ord"
    "HOL-Library.List_Lexorder"
    "HOL-Library.Product_Lexorder"
begin

section \<open>Proposals (package fbb)\<close>

text \<open>
  Go strings are byte sequences; they are modelled as \<^typ>\<open>string\<close>, whose characters are
  bytes.  Go's \<^verbatim>\<open>int\<close> is taken at 64 bits and modelled as \<^typ>\<open>int\<close>; the only place
  where its range matters is \<^verbatim>\<open>strconv.Atoi\<close>, where the clamping is written out.
\<close>

type_synonym PropCode = char
type_synonym ProposalAnswer = char

definition BasicProposal :: PropCode where "BasicProposal = CHR ''B''"
definition AsciiProposal :: PropCode where "AsciiProposal = CHR ''A''"
definition Wl2kProposal :: PropCode where "Wl2kProposal = CHR ''C''"
definition GzipProposal :: PropCode where "GzipProposal = CHR ''D''"

record Proposal =
  code :: PropCode
  msgType :: string
  mid :: string
  answer :: ProposalAnswer
  title :: string
  offset :: int
  sent :: bool
  size :: int
  compressedData :: string
  compressedSize :: int

definition MID :: "Proposal \<Rightarrow> string" where
  "MID p = mid p"

subsection \<open>Library functions on strings\<close>

text \<open>\<^verbatim>\<open>strings.HasPrefix\<close> and \<^verbatim>\<open>strings.Contains\<close>, as executable searches.\<close>

fun strings_HasPrefix :: "string \<Rightarrow> string \<Rightarrow> bool" where
  "strings_HasPrefix s [] = True"
| "strings_HasPrefix [] (p # ps) = False"
| "strings_HasPrefix (c # cs) (p # ps) = (c = p \<and> strings_HasPrefix cs ps)"

fun strings_Contains :: "string \<Rightarrow> string \<Rightarrow> bool" where
  "strings_Contains [] substr = (substr = [])"
| "strings_Contains (c # cs) substr =
     (strings_HasPrefix (c # cs) substr \<or> strings_Contains cs substr)"

subsection \<open>Errors and panics\<close>

text \<open>
  A Go \<^verbatim>\<open>error\<close> value.  The sentinels that \<^verbatim>\<open>Session.Exchange\<close> tests for are constructors
  of their own; \<open>ErrorString\<close> is what \<^verbatim>\<open>errors.New\<close> and \<^verbatim>\<open>fmt.Errorf\<close> without \<^verbatim>\<open>%w\<close>
  build; \<open>Wrapped msg e\<close> is an error with text \<open>msg\<close> whose \<^verbatim>\<open>Unwrap\<close> gives \<open>e\<close>
  (\<^verbatim>\<open>fmt.Errorf\<close> with \<^verbatim>\<open>%w\<close>, \<^verbatim>\<open>*net.OpError\<close>).  A nil error is \<open>None\<close>.
\<close>

datatype error =
    io_EOF
  | io_ErrUnexpectedEOF
  | net_ErrClosed
  | ErrConnLost
  | ErrorString string
  | Wrapped string error

definition errors_New :: "string \<Rightarrow> error" where
  "errors_New msg = ErrorString msg"

text \<open>The text of an error, as \<^verbatim>\<open>Error()\<close> gives it and \<^verbatim>\<open>%s\<close> prints it.\<close>

fun Error :: "error \<Rightarrow> string" where
  "Error io_EOF = ''EOF''"
| "Error io_ErrUnexpectedEOF = ''unexpected EOF''"
| "Error net_ErrClosed = ''use of closed network connection''"
| "Error ErrConnLost = ''connection lost''"
| "Error (ErrorString msg) = msg"
| "Error (Wrapped msg e) = msg"

text \<open>A \<^verbatim>\<open>time.Duration\<close> and a \<^verbatim>\<open>time.Time\<close> are counts of nanoseconds.\<close>

definition Second :: int where "Second = 1000000000"
definition Minute :: int where "Minute = 60 * Second"

text \<open>A run-time panic (an index out of range) is a result of its own.\<close>

datatype 'a outcome = Returns 'a | Panics

subsection \<open>Library functions used by the proposal parser\<close>

text \<open>
  \<^verbatim>\<open>strings.Split(s, sep)\<close> for a separator of one byte, as at its only call: one more part
  than there are separators, empty parts kept.
\<close>

fun strings_Split :: "string \<Rightarrow> char \<Rightarrow> string list" where
  "strings_Split [] sep = [[]]"
| "strings_Split (c # cs) sep =
     (if c = sep then [] # strings_Split cs sep
      else (case strings_Split cs sep of
              [] \<Rightarrow> [[c]]
            | part # parts \<Rightarrow> (c # part) # parts))"

text \<open>
  \<^verbatim>\<open>strconv.Atoi\<close> of the Go standard library, for a 64-bit \<^verbatim>\<open>int\<close>: the fast path for
  strings of 1 to 18 bytes, and \<^verbatim>\<open>ParseInt(s, 10, 0)\<close> over \<^verbatim>\<open>ParseUint(s, 10, 64)\<close>
  otherwise.  The result is the value together with the error (\<open>None\<close> for nil).
  The unsigned accumulator of \<^verbatim>\<open>ParseUint\<close> is an \<^typ>\<open>int\<close> kept below \<open>2 ^ 64\<close> by the
  two overflow tests of the source.
\<close>

datatype NumError = ErrSyntax | ErrRange

definition is_digit :: "char \<Rightarrow> bool" where
  "is_digit c = (CHR ''0'' \<le> c \<and> c \<le> CHR ''9'')"

definition digit_val :: "char \<Rightarrow> int" where
  "digit_val c = of_char c - of_char CHR ''0''"

definition maxUint64 :: int where
  "maxUint64 = 2 ^ 64 - 1"

fun ParseUint_loop :: "int \<Rightarrow> string \<Rightarrow> int \<times> NumError option" where
  "ParseUint_loop n [] = (n, None)"
| "ParseUint_loop n (c # cs) =
     (if \<not> is_digit c then (0, Some ErrSyntax)
      else if n \<ge> maxUint64 div 10 + 1 then (maxUint64, Some ErrRange)
      else let n1 = n * 10 + digit_val c in
           if n1 > maxUint64 then (maxUint64, Some ErrRange)
           else ParseUint_loop n1 cs)"

definition ParseUint :: "string \<Rightarrow> int \<times> NumError option" where
  "ParseUint s = (if s = [] then (0, Some ErrSyntax) else ParseUint_loop 0 s)"

definition ParseInt :: "string \<Rightarrow> int \<times> NumError option" where
  "ParseInt s =
     (if s = [] then (0, Some ErrSyntax)
      else
        let neg = (hd s = CHR ''-'');
            s' = (if hd s = CHR ''+'' \<or> hd s = CHR ''-'' then tl s else s);
            (un, err) = ParseUint s'
        in if err \<noteq> None \<and> err \<noteq> Some ErrRange then (0, err)
           else if \<not> neg \<and> un \<ge> 2 ^ 63 then (2 ^ 63 - 1, Some ErrRange)
           else if neg \<and> un > 2 ^ 63 then (- (2 ^ 63), Some ErrRange)
           else (if neg then - un else un, None))"

fun Atoi_fast_loop :: "int \<Rightarrow> string \<Rightarrow> int \<times> NumError option" where
  "Atoi_fast_loop n [] = (n, None)"
| "Atoi_fast_loop n (ch # s) =
     (if \<not> is_digit ch then (0, Some ErrSyntax)
      else Atoi_fast_loop (n * 10 + digit_val ch) s)"

definition strconv_Atoi :: "string \<Rightarrow> int \<times> NumError option" where
  "strconv_Atoi s0 =
     (if 0 < length s0 \<and> length s0 < 19 then
        let s = (if hd s0 = CHR ''-'' \<or> hd s0 = CHR ''+'' then tl s0 else s0)
        in if length s < 1 then (0, Some ErrSyntax)
           else (case Atoi_fast_loop 0 s of
                   (n, Some e) \<Rightarrow> (n, Some e)
                 | (n, None) \<Rightarrow> (if hd s0 = CHR ''-'' then - n else n, None))
      else ParseInt s0)"

text \<open>
  The verb \<^verbatim>\<open>%c\<close> applied to a byte prints the code point of that value in UTF-8: the
  byte itself below 128, two bytes from 128 on.  \<^verbatim>\<open>%+v\<close> applied to a slice of strings
  prints the elements between brackets, separated by one space.
\<close>

definition fmt_c :: "char \<Rightarrow> string" where
  "fmt_c c =
     (let v = (of_char c :: nat)
      in if v < 128 then [c]
         else [char_of (192 + v div 64), char_of (128 + v mod 64)])"

fun join_sp :: "string list \<Rightarrow> string" where
  "join_sp [] = []"
| "join_sp [x] = x"
| "join_sp (x # y # ys) = x @ '' '' @ join_sp (y # ys)"

definition fmt_v_strings :: "string list \<Rightarrow> string" where
  "fmt_v_strings parts = ''['' @ join_sp parts @ '']''"

subsection \<open>The proposal parser\<close>

text \<open>
  \<^verbatim>\<open>parseB2Proposal\<close> and \<^verbatim>\<open>parseProposal\<close> write into the proposal they are given and
  return an error; the model returns the error together with the proposal as it is left.
  The loop over the parts carries the index, as \<^verbatim>\<open>for i, part := range parts\<close> does.
\<close>

fun parts_loop :: "string list \<Rightarrow> nat \<Rightarrow> string list \<Rightarrow> Proposal \<Rightarrow> error option \<times> Proposal" where
  "parts_loop parts i [] prop = (None, prop)"
| "parts_loop parts i (part # rest) prop =
     (if i = 0 then
        (if length part < 1 \<or> length part > 2 then
           (Some (errors_New ''Malformed proposal 0''), prop)
         else if part \<noteq> ''EM'' \<and> part \<noteq> ''CM'' then
           (Some (ErrorString (''Expected message type CM or EM, but found '' @ part)), prop)
         else parts_loop parts (Suc i) rest (prop\<lparr>msgType := part\<rparr>))
      else if i = 1 then parts_loop parts (Suc i) rest (prop\<lparr>mid := part\<rparr>)
      else if i = 2 then
        parts_loop parts (Suc i) rest (prop\<lparr>size := fst (strconv_Atoi part)\<rparr>)
      else if i = 3 then
        parts_loop parts (Suc i) rest (prop\<lparr>compressedSize := fst (strconv_Atoi part)\<rparr>)
      else if i = 4 then parts_loop parts (Suc i) rest prop
      else (Some (errors_New (''Too many parts in proposal: '' @ fmt_v_strings parts)), prop))"

definition parseB2Proposal :: "string \<Rightarrow> Proposal \<Rightarrow> error option \<times> Proposal" where
  "parseB2Proposal line prop =
     (if length line < 4 then
        (Some (errors_New ''Unexpected end of proposal line''), prop)
      else if \<not> (line ! 1 = Wl2kProposal \<or> line ! 1 = GzipProposal) then
        (Some (errors_New ''Not a type C or D proposal''), prop)
      else
        let parts = strings_Split (drop 3 line) CHR '' ''
        in if length parts < 5 then
             (Some (errors_New (''Malformed proposal: '' @ drop 2 line)), prop)
           else parts_loop parts 0 parts prop)"

definition parseProposal :: "string \<Rightarrow> Proposal \<Rightarrow> (error option \<times> Proposal) outcome" where
  "parseProposal line prop =
     (if length line < 1 then Returns (None, prop)
      else if line ! 0 \<noteq> CHR ''F'' then Returns (None, prop)
      else if length line < 2 then Panics
      else
        let prop' = prop\<lparr>code := line ! 1\<rparr>
        in if code prop' = BasicProposal \<or> code prop' = AsciiProposal then
             Returns (None, prop')
           else if code prop' = Wl2kProposal \<or> code prop' = GzipProposal then
             Returns (parseB2Proposal line prop')
           else
             Returns (Some (ErrorString (''Unsupported proposal code '' @ [CHR 0x27]
                        @ fmt_c (code prop') @ [CHR 0x27])), prop'))"

text \<open>A proposal as \<^verbatim>\<open>new(Proposal)\<close> gives it: every field at its zero value.\<close>

definition zero_Proposal :: Proposal where
  "zero_Proposal = \<lparr>code = CHR 0x00, msgType = [], mid = [], answer = CHR 0x00, title = [],
     offset = 0, sent = False, size = 0, compressedData = [], compressedSize = 0\<rparr>"

subsection \<open>Precedence\<close>

definition Flash :: int where "Flash = 0"
definition Immediate :: int where "Immediate = 1"
definition Priority :: int where "Priority = 2"
definition Routine :: int where "Routine = 3"

definition precedence :: "Proposal \<Rightarrow> int" where
  "precedence p =
     (if strings_Contains (title p) ''//WL2K Z/'' then Flash
      else if strings_Contains (title p) ''//WL2K O/'' then Immediate
      else if strings_Contains (title p) ''//WL2K P/'' then Priority
      else Routine)"

subsection \<open>Ordering the proposals to offer (session.go)\<close>

text \<open>
  The two orderings handed to package \<^verbatim>\<open>sort\<close>: \<^verbatim>\<open>bySize.Less\<close> and \<^verbatim>\<open>byPrecedence.Less\<close>,
  as relations on the proposals at the two indices.  Go compares strings byte by byte,
  which is the lexicographic order of \<^typ>\<open>string\<close>.
\<close>

definition bySize_Less :: "Proposal \<Rightarrow> Proposal \<Rightarrow> bool" where
  "bySize_Less a b =
     (if compressedSize a \<noteq> compressedSize b then compressedSize a < compressedSize b
      else MID a < MID b)"

definition byPrecedence_Less :: "Proposal \<Rightarrow> Proposal \<Rightarrow> bool" where
  "byPrecedence_Less a b = (precedence a < precedence b)"

text \<open>
  \<^verbatim>\<open>sort.Sort\<close> and \<^verbatim>\<open>sort.Stable\<close> belong to the Go standard library.  \<^verbatim>\<open>sortProposals\<close>
  takes them as parameters, each a function of the \<^verbatim>\<open>Less\<close> relation and the slice, and
  what is proved of it holds for every pair of functions that keep the library's contract:
  \<^verbatim>\<open>Sort\<close> rearranges the slice so that no element is \<^verbatim>\<open>Less\<close> than one before it, with no
  promise on equal elements; \<^verbatim>\<open>Stable\<close> does so too and keeps equal elements (neither
  \<^verbatim>\<open>Less\<close> than the other) in their order.
\<close>

definition is_sort :: "('a \<Rightarrow> 'a \<Rightarrow> bool) \<Rightarrow> ('a list \<Rightarrow> 'a list) \<Rightarrow> bool" where
  "is_sort lt srt =
     (\<forall>xs. mset (srt xs) = mset xs \<and> sorted_wrt (\<lambda>a b. \<not> lt b a) (srt xs))"

definition is_stable_sort :: "('a \<Rightarrow> 'a \<Rightarrow> bool) \<Rightarrow> ('a list \<Rightarrow> 'a list) \<Rightarrow> bool" where
  "is_stable_sort lt srt =
     (is_sort lt srt \<and>
      (\<forall>xs x. filter (\<lambda>y. \<not> lt x y \<and> \<not> lt y x) (srt xs) =
               filter (\<lambda>y. \<not> lt x y \<and> \<not> lt y x) xs))"

definition sortProposals ::
  "((Proposal \<Rightarrow> Proposal \<Rightarrow> bool) \<Rightarrow> Proposal list \<Rightarrow> Proposal list) \<Rightarrow>
   ((Proposal \<Rightarrow> Proposal \<Rightarrow> bool) \<Rightarrow> Proposal list \<Rightarrow> Proposal list) \<Rightarrow>
   Proposal list \<Rightarrow> Proposal list" where
  "sortProposals sort_Sort sort_Stable props =
     sort_Stable byPrecedence_Less (sort_Sort bySize_Less props)"

text \<open>
  One function that keeps both contracts: a stable insertion sort (the library, too, sorts
  by insertion a slice as short as the example).  An element goes before the first one
  that is not \<^verbatim>\<open>Less\<close> than it.
\<close>

fun insert_by :: "('a \<Rightarrow> 'a \<Rightarrow> bool) \<Rightarrow> 'a \<Rightarrow> 'a list \<Rightarrow> 'a list" where
  "insert_by lt x [] = [x]"
| "insert_by lt x (y # ys) = (if lt y x then y # insert_by lt x ys else x # y # ys)"

definition insertion_sort :: "('a \<Rightarrow> 'a \<Rightarrow> bool) \<Rightarrow> 'a list \<Rightarrow> 'a list" where
  "insertion_sort lt xs = foldr (insert_by lt) xs []"

text \<open>Five proposals to offer: one flash, one priority, three routine.\<close>

definition offer :: "string \<Rightarrow> string \<Rightarrow> int \<Rightarrow> Proposal" where
  "offer m t n = \<lparr>code = CHR ''C'', msgType = ''EM'', mid = m, answer = CHR 0x00, title = t,
     offset = 0, sent = False, size = 2 * n, compressedData = [], compressedSize = n\<rparr>"

definition offers :: "Proposal list" where
  "offers = [offer ''MIDROUTINE20'' ''Hello'' 20, offer ''MIDPRIORITY1'' ''//WL2K P/ Supplies'' 100,
     offer ''MIDROUTINE1B'' ''Weather'' 10, offer ''MIDFLASH0001'' ''//WL2K Z/ Flood'' 50,
     offer ''MIDROUTINE1A'' ''Nets'' 10]"

section \<open>The directory mailbox handler (package mailbox)\<close>

text \<open>
  Modelled from the spec: the message container \<^verbatim>\<open>fbb.Message\<close> and its header type,
  whose sources are not among the files at hand.  The spec gives a message as "ordered,
  case-insensitive-keyed multi-valued headers", a binary body and attachments, so a header
  is a list of key and value pairs in insertion order, and keys are compared without
  regard to the case of ASCII letters.
\<close>

type_synonym Header = "(string \<times> string) list"

record Message =
  Header :: Header
  Body :: string
  Files :: "(string \<times> string) list"

definition lower :: "char \<Rightarrow> char" where
  "lower c = (if CHR ''A'' \<le> c \<and> c \<le> CHR ''Z'' then char_of (of_char c + (32::nat)) else c)"

definition key_eq :: "string \<Rightarrow> string \<Rightarrow> bool" where
  "key_eq a b = (map lower a = map lower b)"

text \<open>
  Modelled from the spec: \<^verbatim>\<open>Header.Get\<close> gives the first value stored under a key, the
  empty string when there is none; \<^verbatim>\<open>Header.Del\<close> removes every value stored under a key.
\<close>

fun Header_Get :: "Header \<Rightarrow> string \<Rightarrow> string" where
  "Header_Get [] key = []"
| "Header_Get ((k, v) # h) key = (if key_eq k key then v else Header_Get h key)"

definition Header_Del :: "Header \<Rightarrow> string \<Rightarrow> Header" where
  "Header_Del h key = filter (\<lambda>(k, v). \<not> key_eq k key) h"

text \<open>Modelled from the spec: "\<^verbatim>\<open>MID()\<close> returns the value of \<^verbatim>\<open>Mid\<close>".\<close>

definition Message_MID :: "Message \<Rightarrow> string" where
  "Message_MID m = Header_Get (Header m) ''Mid''"

record DirHandler =
  MBoxPath :: string
  deferred :: "string \<rightharpoonup> bool"
  sendOnly :: bool

text \<open>Reading a Go map at a key it does not hold (or reading a nil map) gives \<^verbatim>\<open>false\<close>.\<close>

definition deferred_at :: "DirHandler \<Rightarrow> string \<Rightarrow> bool" where
  "deferred_at h k = (case deferred h k of None \<Rightarrow> False | Some b \<Rightarrow> b)"

text \<open>
  \<^verbatim>\<open>GetOutbound\<close>.  The messages \<open>all\<close> are what \<^verbatim>\<open>LoadMessageDir\<close> returned for the outbox
  (nil when it failed; the failure is only logged).  Each is a freshly read message that
  nothing else refers to, so the writes to its header show only in the message that is
  delivered.  \<^verbatim>\<open>Message.IsOnlyReceiver\<close> and the address type are not among the files at
  hand: the test is a parameter \<open>IsOnlyReceiver\<close>, a function of the message and the
  address, and addresses are of any type.  The inner loop over the forwarders answers
  whether the message was appended, which is when the loop breaks.
\<close>

fun fws_loop :: "(Message \<Rightarrow> 'a \<Rightarrow> bool) \<Rightarrow> Message \<Rightarrow> 'a list \<Rightarrow> bool" where
  "fws_loop IsOnlyReceiver m [] = False"
| "fws_loop IsOnlyReceiver m (fw # fws) =
     (if IsOnlyReceiver m fw then True else fws_loop IsOnlyReceiver m fws)"

definition del_private :: "Message \<Rightarrow> Message" where
  "del_private m =
     m\<lparr>Header := Header_Del (Header_Del (Header_Del (Header m) ''X-P2POnly'') ''X-FilePath'')
          ''X-Unread''\<rparr>"

fun GetOutbound_loop ::
  "(Message \<Rightarrow> 'a \<Rightarrow> bool) \<Rightarrow> DirHandler \<Rightarrow> 'a list \<Rightarrow> Message list \<Rightarrow> Message list
    \<Rightarrow> Message list" where
  "GetOutbound_loop IsOnlyReceiver h fws [] deliver = deliver"
| "GetOutbound_loop IsOnlyReceiver h fws (m # rest) deliver =
     (if deferred_at h (Message_MID m) then
        GetOutbound_loop IsOnlyReceiver h fws rest deliver
      else if length fws > 0 then
        GetOutbound_loop IsOnlyReceiver h fws rest
          (if fws_loop IsOnlyReceiver m fws then deliver @ [m] else deliver)
      else if length fws = 0 \<and> Header_Get (Header m) ''X-P2POnly'' = ''true'' then
        GetOutbound_loop IsOnlyReceiver h fws rest deliver
      else
        GetOutbound_loop IsOnlyReceiver h fws rest (deliver @ [del_private m]))"

definition GetOutbound ::
  "(Message \<Rightarrow> 'a \<Rightarrow> bool) \<Rightarrow> DirHandler \<Rightarrow> Message list \<Rightarrow> 'a list \<Rightarrow> Message list" where
  "GetOutbound IsOnlyReceiver h all fws = GetOutbound_loop IsOnlyReceiver h fws all []"

text \<open>An outbox of four messages, a handler that has deferred one of them, and a receiver test.\<close>

definition msg_p2p :: Message where
  "msg_p2p = \<lparr>Header = [(''Mid'', ''AAAAAAAAAAAA''), (''To'', ''LA1B''), (''X-P2POnly'', ''true''),
     (''X-FilePath'', ''/out/AAAAAAAAAAAA.b2f'')], Body = ''one'', Files = []\<rparr>"

definition msg_plain :: Message where
  "msg_plain = \<lparr>Header = [(''Mid'', ''BBBBBBBBBBBB''), (''To'', ''LA5NTA''),
     (''X-FilePath'', ''/out/BBBBBBBBBBBB.b2f''), (''X-Unread'', ''true'')],
     Body = ''two'', Files = []\<rparr>"

definition msg_later :: Message where
  "msg_later = \<lparr>Header = [(''Mid'', ''CCCCCCCCCCCC''), (''To'', ''LA1B'')],
     Body = ''three'', Files = []\<rparr>"

definition msg_mixed :: Message where
  "msg_mixed = \<lparr>Header = [(''Mid'', ''DDDDDDDDDDDD''), (''To'', ''LA1B''),
     (''x-p2ponly'', ''false''), (''X-P2POnly'', ''true'')], Body = ''four'', Files = []\<rparr>"

definition outbox :: "Message list" where
  "outbox = [msg_p2p, msg_plain, msg_later, msg_mixed]"

definition dir_handler :: DirHandler where
  "dir_handler = \<lparr>MBoxPath = ''/mbox'', deferred = [''CCCCCCCCCCCC'' \<mapsto> True], sendOnly = False\<rparr>"

definition to_is :: "Message \<Rightarrow> string \<Rightarrow> bool" where
  "to_is m fw = (Header_Get (Header m) ''To'' = fw)"

section \<open>Rig control over TCP (package hamlib)\<close>

text \<open>
  The rig holds two connections, each nil or a handle.  What the operating system and the
  network do is a record of operations on a state \<open>'w\<close>: closing a text connection (its
  error is dropped by the caller), printing to standard output, and dialing, which gives a
  handle or an error.  The mutex is held for the whole call and has no part in what a
  single call computes.
\<close>

record TCPRig =
  conn :: "nat option"
  tcpConn :: "nat option"
  addr :: string

record 'w hamlib_sys =
  textproto_Close :: "nat \<Rightarrow> 'w \<Rightarrow> 'w"
  fmt_Printf :: "string \<Rightarrow> 'w \<Rightarrow> 'w"
  net_DialTimeout :: "string \<Rightarrow> string \<Rightarrow> int \<Rightarrow> 'w \<Rightarrow> (nat option \<times> error option) \<times> 'w"

definition TCPTimeout :: int where "TCPTimeout = 30 * Second"

definition fmt_s_error :: "error option \<Rightarrow> string" where
  "fmt_s_error err = (case err of None \<Rightarrow> ''%!s(<nil>)'' | Some e \<Rightarrow> Error e)"

text \<open>
  A function body is a sequence of statements, each of which either returns from the
  function or hands the state on to the next.  The state of \<^verbatim>\<open>dial\<close> is the named result
  \<open>err\<close>, the rig and the world.  All statements of the source are in the model, in the
  order of the source, those after the first \<^verbatim>\<open>return\<close> too.
\<close>

datatype ('r, 's) flow = Return 'r | Continue 's

definition next_stmt :: "('r, 's) flow \<Rightarrow> ('s \<Rightarrow> ('r, 's) flow) \<Rightarrow> ('r, 's) flow" where
  "next_stmt f stmt = (case f of Return r \<Rightarrow> Return r | Continue s \<Rightarrow> stmt s)"

type_synonym 'w dial_state = "error option \<times> TCPRig \<times> 'w"

definition dial_close_old :: "'w hamlib_sys \<Rightarrow> 'w dial_state \<Rightarrow> ('w dial_state, 'w dial_state) flow" where
  "dial_close_old sys = (\<lambda>(err, r, w).
     Continue (err, r, (case conn r of None \<Rightarrow> w | Some c \<Rightarrow> textproto_Close sys c w)))"

definition dial_print_try :: "'w hamlib_sys \<Rightarrow> 'w dial_state \<Rightarrow> ('w dial_state, 'w dial_state) flow" where
  "dial_print_try sys = (\<lambda>(err, r, w). Continue (err, r, fmt_Printf sys ''Koitetaan'' w))"

definition dial_return_err :: "'w dial_state \<Rightarrow> ('w dial_state, 'w dial_state) flow" where
  "dial_return_err = (\<lambda>(err, r, w). Return (err, r, w))"

definition dial_connect :: "'w hamlib_sys \<Rightarrow> 'w dial_state \<Rightarrow> ('w dial_state, 'w dial_state) flow" where
  "dial_connect sys = (\<lambda>(err, r, w).
     let ((c, err'), w') = net_DialTimeout sys ''tcp'' (addr r) TCPTimeout w
     in Continue (err', r\<lparr>tcpConn := c\<rparr>, w'))"

definition dial_print_got :: "'w hamlib_sys \<Rightarrow> 'w dial_state \<Rightarrow> ('w dial_state, 'w dial_state) flow" where
  "dial_print_got sys = (\<lambda>(err, r, w).
     Continue (err, r, fmt_Printf sys (''Juuri tuli '' @ fmt_s_error err) w))"

definition dial_check_err :: "'w dial_state \<Rightarrow> ('w dial_state, 'w dial_state) flow" where
  "dial_check_err = (\<lambda>(err, r, w). if err \<noteq> None then Return (err, r, w) else Continue (err, r, w))"

definition dial_new_conn :: "'w dial_state \<Rightarrow> ('w dial_state, 'w dial_state) flow" where
  "dial_new_conn = (\<lambda>(err, r, w). Continue (err, r\<lparr>conn := tcpConn r\<rparr>, w))"

definition dial :: "'w hamlib_sys \<Rightarrow> TCPRig \<Rightarrow> 'w \<Rightarrow> ('w dial_state, 'w dial_state) flow" where
  "dial sys r w =
     next_stmt (next_stmt (next_stmt (next_stmt (next_stmt (next_stmt (next_stmt (next_stmt
       (Continue (None, r, w))
       (dial_close_old sys))
       (dial_print_try sys))
       dial_return_err)
       (dial_connect sys))
       (dial_print_got sys))
       dial_check_err)
       dial_new_conn)
       dial_return_err"

section \<open>The session (package fbb, session.go)\<close>

subsection \<open>What the session works with\<close>

text \<open>
  \<^verbatim>\<open>net.Conn\<close> and \<^verbatim>\<open>MBoxHandler\<close> are interfaces: a value of either is a set of methods
  over a state that the session cannot see.  That state, with the peer, the mailbox, the
  clock and the process environment, is a world \<open>'w\<close>; a method takes the world and gives
  the world it leaves, with its result.  \<open>conn_SetRobust\<close> is present when the connection
  implements \<^verbatim>\<open>transport.Robust\<close>.  Results that \<^verbatim>\<open>Exchange\<close> drops (of \<^verbatim>\<open>SetDeadline\<close>,
  \<^verbatim>\<open>SetRobust\<close> and \<^verbatim>\<open>fmt.Fprintf\<close>) are not in the model.  Of the handler only
  \<^verbatim>\<open>Prepare\<close> is called by \<^verbatim>\<open>Exchange\<close> itself.
\<close>

record 'w net_Conn =
  conn_Close :: "'w \<Rightarrow> error option \<times> 'w"
  conn_SetDeadline :: "int \<Rightarrow> 'w \<Rightarrow> 'w"
  conn_Write :: "string \<Rightarrow> 'w \<Rightarrow> 'w"
  conn_SetRobust :: "(bool \<Rightarrow> 'w \<Rightarrow> 'w) option"

record 'w MBoxHandler =
  Prepare :: "'w \<Rightarrow> error option \<times> 'w"

record TrafficStats =
  Received :: "string list"
  Sent :: "string list"

text \<open>The zero value: both slices nil.  A nil slice and an empty one are both \<open>[]\<close>.\<close>

definition zero_TrafficStats :: TrafficStats where
  "zero_TrafficStats = \<lparr>Received = [], Sent = []\<rparr>"

datatype robustMode = RobustAuto | RobustForced | RobustDisabled

text \<open>
  The session.  The handler field \<^verbatim>\<open>h\<close> of the source is \<open>handler\<close> here, \<open>None\<close> when
  nil.  Addresses are of any type \<open>'a\<close>.  The reader \<^verbatim>\<open>rd\<close>, the loggers, the status
  updater and the login callback are left out, and with them what \<^verbatim>\<open>Exchange\<close> writes to
  the log.
\<close>

record ('w, 'a) Session =
  mycall :: string
  targetcall :: string
  locator :: string
  motd :: "string list"
  handler :: "'w MBoxHandler option"
  master :: bool
  robustMode :: robustMode
  remoteSID :: string
  remoteFW :: "'a list"
  localFW :: "'a list"
  trafficStats :: TrafficStats
  quitReceived :: bool
  quitSent :: bool
  remoteNoMsgs :: bool

text \<open>
  The methods of the session that \<^verbatim>\<open>Exchange\<close> calls and whose source is not among the
  files at hand, and the two library calls that read the world.  Each of the three methods
  may write to the session and use the connection; the two turn handlers return the quit
  flag and an error.
\<close>

record ('w, 'a) env =
  handshake ::
    "'w net_Conn \<Rightarrow> ('w, 'a) Session \<Rightarrow> 'w \<Rightarrow> error option \<times> ('w, 'a) Session \<times> 'w"
  handleOutbound ::
    "'w net_Conn \<Rightarrow> ('w, 'a) Session \<Rightarrow> 'w \<Rightarrow> (bool \<times> error option) \<times> ('w, 'a) Session \<times> 'w"
  handleInbound ::
    "'w net_Conn \<Rightarrow> ('w, 'a) Session \<Rightarrow> 'w \<Rightarrow> (bool \<times> error option) \<times> ('w, 'a) Session \<times> 'w"
  os_Getenv :: "string \<Rightarrow> 'w \<Rightarrow> string"
  time_Now :: "'w \<Rightarrow> int"

subsection \<open>Library functions\<close>

text \<open>\<^verbatim>\<open>errors.Is\<close>: the error or one it wraps is the target.\<close>

fun errors_Is :: "error \<Rightarrow> error \<Rightarrow> bool" where
  "errors_Is (Wrapped msg e) target = (Wrapped msg e = target \<or> errors_Is e target)"
| "errors_Is e target = (e = target)"

text \<open>\<^verbatim>\<open>strconv.ParseBool\<close>: the value, and whether the text was rejected.\<close>

definition strconv_ParseBool :: "string \<Rightarrow> bool \<times> NumError option" where
  "strconv_ParseBool str =
     (if str \<in> set [''1'', ''t'', ''T'', ''TRUE'', ''true'', ''True''] then (True, None)
      else if str \<in> set [''0'', ''f'', ''F'', ''FALSE'', ''false'', ''False''] then (False, None)
      else (False, Some ErrSyntax))"

subsection \<open>Exchange\<close>

definition IsMaster :: "('w, 'a) Session \<Rightarrow> bool \<Rightarrow> ('w, 'a) Session" where
  "IsMaster s isMaster = s\<lparr>master := isMaster\<rparr>"

definition Done :: "('w, 'a) Session \<Rightarrow> bool" where
  "Done s = (quitReceived s \<or> quitSent s)"

text \<open>
  The turn loop of \<^verbatim>\<open>Exchange\<close>.  Nothing bounds the number of turns, so the loop runs on
  fuel, one unit a turn, and \<open>None\<close> is a loop that has not ended when the fuel is spent.
  Besides the error, the session and the world, the loop gives the list of the turns it
  took, oldest first; the list is there to state the order of the turns and nothing is
  computed from it.
\<close>

datatype turn = Outbound | Inbound

fun turn_loop ::
  "nat \<Rightarrow> ('w, 'a) env \<Rightarrow> 'w net_Conn \<Rightarrow> bool \<Rightarrow> ('w, 'a) Session \<Rightarrow> 'w
    \<Rightarrow> (turn list \<times> error option \<times> ('w, 'a) Session \<times> 'w) option" where
  "turn_loop 0 E c myTurn s w = (if Done s then Some ([], None, s, w) else None)"
| "turn_loop (Suc fuel) E c myTurn s w =
     (if Done s then Some ([], None, s, w)
      else
        let (t, (quit, err), s1, w1) =
              (if myTurn then (Outbound, handleOutbound E c s w)
               else (Inbound, handleInbound E c s w));
            s2 = (if myTurn then s1\<lparr>quitSent := quit\<rparr> else s1\<lparr>quitReceived := quit\<rparr>)
        in if err \<noteq> None then Some ([t], err, s2, w1)
           else map_option (\<lambda>(ts, r). (t # ts, r)) (turn_loop fuel E c (\<not> myTurn) s2 w1))"

text \<open>
  A list of turns that starts with the given one and changes at every step; a notion of
  the proofs, not of the source.
\<close>

fun alternating :: "turn \<Rightarrow> turn list \<Rightarrow> bool" where
  "alternating t [] = True"
| "alternating t (x # xs) = (x = t \<and> alternating (if t = Outbound then Inbound else Outbound) xs)"

text \<open>
  The steps of \<^verbatim>\<open>Exchange\<close> before the handshake: the experiment that drops the first
  local address, the call of \<^verbatim>\<open>Prepare\<close> when there is a handler, and the switch of the
  robust mode when the connection has one.
\<close>

definition fw_aux_only :: "('w, 'a) env \<Rightarrow> ('w, 'a) Session \<Rightarrow> 'w \<Rightarrow> ('w, 'a) Session" where
  "fw_aux_only E s w =
     (if fst (strconv_ParseBool (os_Getenv E ''FW_AUX_ONLY_EXPERIMENT'' w))
         \<and> length (localFW s) > 1
      then s\<lparr>localFW := tl (localFW s)\<rparr> else s)"

definition prepare_mbox :: "('w, 'a) Session \<Rightarrow> 'w \<Rightarrow> error option \<times> 'w" where
  "prepare_mbox s w = (case handler s of None \<Rightarrow> (None, w) | Some mbox \<Rightarrow> Prepare mbox w)"

definition set_robust :: "'w net_Conn \<Rightarrow> bool \<Rightarrow> 'w \<Rightarrow> 'w" where
  "set_robust c b w = (case conn_SetRobust c of None \<Rightarrow> w | Some setRobust \<Rightarrow> setRobust b w)"

text \<open>
  The turn loop as \<^verbatim>\<open>Exchange\<close> runs it, with the two \<^verbatim>\<open>return\<close> statements that end it:
  the one inside the loop, with the error of the turn, and the one after it, with the
  result of closing the connection.
\<close>

definition Exchange_turns ::
  "nat \<Rightarrow> ('w, 'a) env \<Rightarrow> 'w net_Conn \<Rightarrow> ('w, 'a) Session \<Rightarrow> 'w
    \<Rightarrow> (turn list \<times> TrafficStats \<times> error option \<times> ('w, 'a) Session \<times> 'w) option" where
  "Exchange_turns fuel E c s w =
     (case turn_loop fuel E c (\<not> master s) s w of
        None \<Rightarrow> None
      | Some (ts, Some e, s', w') \<Rightarrow> Some (ts, trafficStats s', Some e, s', w')
      | Some (ts, None, s', w') \<Rightarrow>
          let (cerr, w'') = conn_Close c w'
          in Some (ts, trafficStats s', cerr, s', w''))"

text \<open>
  The body of \<^verbatim>\<open>Exchange\<close> from the experiment with the auxiliary addresses to the last
  \<^verbatim>\<open>return\<close>.  It gives whether the deferred \<^verbatim>\<open>SetRobust(false)\<close> has been registered,
  and then the turns taken, the two results as the \<^verbatim>\<open>return\<close> statement sets them (a bare
  \<^verbatim>\<open>return\<close> leaves the statistics at their zero value), the session and the world.
\<close>

definition Exchange_body ::
  "nat \<Rightarrow> ('w, 'a) env \<Rightarrow> ('w, 'a) Session \<Rightarrow> 'w net_Conn \<Rightarrow> 'w
    \<Rightarrow> (bool \<times> turn list \<times> TrafficStats \<times> error option \<times> ('w, 'a) Session \<times> 'w) option" where
  "Exchange_body fuel E s0 c w0 =
     (let s = fw_aux_only E s0 w0;
          (perr, w1) = prepare_mbox s w0
      in if perr \<noteq> None then Some (False, [], zero_TrafficStats, perr, s, w1)
         else
           let w2 = set_robust c (robustMode s \<noteq> RobustDisabled) w1;
               deferred_robust = (conn_SetRobust c \<noteq> None);
               (herr, s3, w3) = handshake E c s w2
           in if herr \<noteq> None then Some (deferred_robust, [], zero_TrafficStats, herr, s3, w3)
              else map_option (Pair deferred_robust) (Exchange_turns fuel E c s3 w3))"

text \<open>
  The function deferred first, which runs last: it rewrites the error or reports it to the
  peer, and closes the connection in either case.
\<close>

definition Exchange_deferred ::
  "('w, 'a) env \<Rightarrow> 'w net_Conn \<Rightarrow> error option \<Rightarrow> 'w \<Rightarrow> error option \<times> 'w" where
  "Exchange_deferred E c err w =
     (let (err', w') =
        (case err of
           None \<Rightarrow> (None, w)
         | Some e \<Rightarrow>
             if errors_Is e io_EOF \<or> errors_Is e io_ErrUnexpectedEOF then (Some ErrConnLost, w)
             else if errors_Is e net_ErrClosed then (Some ErrConnLost, w)
             else (Some e,
                   conn_Write c (''*** '' @ Error e @ [CHR 0x0D, CHR 0x0A])
                     (conn_SetDeadline c (time_Now E w + Minute) w)))
      in (err', snd (conn_Close c w')))"

text \<open>
  \<^verbatim>\<open>Exchange\<close>: nothing at all for a session that is done; otherwise the body, then the
  deferred calls in the reverse of the order in which they were registered.  The result is
  the turns taken, the statistics, the error, the session and the world.
\<close>

definition Exchange ::
  "nat \<Rightarrow> ('w, 'a) env \<Rightarrow> ('w, 'a) Session \<Rightarrow> 'w net_Conn \<Rightarrow> 'w
    \<Rightarrow> (turn list \<times> TrafficStats \<times> error option \<times> ('w, 'a) Session \<times> 'w) option" where
  "Exchange fuel E s c w =
     (if Done s then Some ([], zero_TrafficStats, None, s, w)
      else
        (case Exchange_body fuel E s c w of
           None \<Rightarrow> None
         | Some (deferred_robust, ts, stats, err, s', w') \<Rightarrow>
             let w1 = (if deferred_robust then set_robust c False w' else w');
                 (err', w2) = Exchange_deferred E c err w1
             in Some (ts, stats, err', s', w2)))"

text \<open>
  What becomes of an error \<open>e\<close> with which \<^verbatim>\<open>Exchange\<close> ends, written from the words of the
  specification and not from the code: an error that is or wraps \<^verbatim>\<open>io.EOF\<close>,
  \<^verbatim>\<open>io.ErrUnexpectedEOF\<close> or \<^verbatim>\<open>net.ErrClosed\<close> is returned as \<^verbatim>\<open>ErrConnLost\<close> and the
  connection is closed with nothing written; any other error is returned as it is, after
  a deadline of one minute from now has been set, the line \<^verbatim>\<open>*** \<close>, text, CR, LF has been
  written, and the connection has been closed.  The result is the error returned and the
  world left.
\<close>

definition claimed_report ::
  "('w, 'a) env \<Rightarrow> 'w net_Conn \<Rightarrow> error \<Rightarrow> 'w \<Rightarrow> error option \<times> 'w" where
  "claimed_report E c e w =
     (if errors_Is e io_EOF \<or> errors_Is e io_ErrUnexpectedEOF \<or> errors_Is e net_ErrClosed
      then (Some ErrConnLost, snd (conn_Close c w))
      else (Some e,
            snd (conn_Close c
              (conn_Write c (''*** '' @ Error e @ [CHR 0x0D, CHR 0x0A])
                 (conn_SetDeadline c (time_Now E w + 60 * 1000000000) w)))))"

text \<open>
  A world to run the session in: the log of what was done, in order.  The connection and
  the handler write what is asked of them to the log; the clock reads the length of the
  log in seconds.  In this world the peer has nothing to send and asks to quit on its
  second turn, unless the handshake meets the end of the stream, which it does when the
  target call is empty.
\<close>

datatype event =
    Closed | Deadline int | Wrote string | Robust bool | Prepared | Shaken | Offered | Listened

definition log_conn :: "event list net_Conn" where
  "log_conn = \<lparr>conn_Close = (\<lambda>w. (None, w @ [Closed])),
     conn_SetDeadline = (\<lambda>t w. w @ [Deadline t]),
     conn_Write = (\<lambda>p w. w @ [Wrote p]),
     conn_SetRobust = Some (\<lambda>b w. w @ [Robust b])\<rparr>"

definition log_mbox :: "event list MBoxHandler" where
  "log_mbox = \<lparr>Prepare = (\<lambda>w. (None, w @ [Prepared]))\<rparr>"

definition log_env :: "(event list, string) env" where
  "log_env = \<lparr>
     handshake = (\<lambda>c s w.
       if targetcall s = [] then (Some (Wrapped ''read: EOF'' io_EOF), s, w @ [Shaken])
       else if locator s = [] then (Some (ErrorString ''Invalid locator''), s, w @ [Shaken])
       else (None, s, w @ [Shaken])),
     handleOutbound = (\<lambda>c s w. ((False, None), s, w @ [Offered])),
     handleInbound = (\<lambda>c s w. ((remoteNoMsgs s, None), s\<lparr>remoteNoMsgs := True\<rparr>, w @ [Listened])),
     os_Getenv = (\<lambda>name w. []),
     time_Now = (\<lambda>w. int (length w) * Second)\<rparr>"

definition station :: "(event list, string) Session" where
  "station = \<lparr>mycall = ''LA5NTA'', targetcall = ''LA1B'', locator = ''JO39EQ'', motd = [],
     handler = Some log_mbox, master = False, robustMode = RobustAuto, remoteSID = [],
     remoteFW = [], localFW = [''LA5NTA''],
     trafficStats = \<lparr>Received = [''AAAAAAAAAAAA''], Sent = []\<rparr>,
     quitReceived = False, quitSent = False, remoteNoMsgs = False\<rparr>"

text \<open>
  Three ways for the exchange to fail in that world: a mailbox that is not ready, a peer
  that answers a proposal with something unexpected, and a connection that is already
  closed when the session closes it.
\<close>

definition locked_mbox :: "event list MBoxHandler" where
  "locked_mbox = \<lparr>Prepare = (\<lambda>w. (Some (ErrorString ''Mailbox is locked''), w @ [Prepared]))\<rparr>"

definition deaf_env :: "(event list, string) env" where
  "deaf_env = log_env\<lparr>handleOutbound :=
     (\<lambda>c s w. ((False, Some (ErrorString ''Unexpected response'')), s, w @ [Offered]))\<rparr>"

definition stuck_conn :: "event list net_Conn" where
  "stuck_conn = log_conn\<lparr>conn_Close :=
     (\<lambda>w. (Some (Wrapped ''close tcp'' net_ErrClosed), w @ [Closed]))\<rparr>"

section \<open>Properties\<close>

lemma strings_HasPrefix_prefix: "strings_HasPrefix s p \<longleftrightarrow> prefix p s"
  by (induction s p rule: strings_HasPrefix.induct) auto

lemma strings_Contains_sublist: "strings_Contains s substr \<longleftrightarrow> sublist substr s"
  by (induction s) (auto simp: strings_HasPrefix_prefix sublist_Cons_right)

text \<open>
  Claim C7.  The precedence of a proposal is 0 (Flash) when its title has the substring
  \<^verbatim>\<open>//WL2K Z/\<close>, otherwise 1 (Immediate) when it has \<^verbatim>\<open>//WL2K O/\<close>, otherwise 2 (Priority)
  when it has \<^verbatim>\<open>//WL2K P/\<close>, and 3 (Routine) otherwise.  Substring is the library's
  \<^const>\<open>sublist\<close>: some prefix and suffix surround the marker.
\<close>
theorem precedence_by_title_marker:
  "precedence p =
     (if sublist ''//WL2K Z/'' (title p) then 0
      else if sublist ''//WL2K O/'' (title p) then 1
      else if sublist ''//WL2K P/'' (title p) then 2
      else 3)"
  by (simp add: precedence_def strings_Contains_sublist Flash_def Immediate_def
      Priority_def Routine_def)

subsection \<open>The proposal parser\<close>






text \<open>
  Claim C4, as the code has it.  A line that starts with \<^verbatim>\<open>F\<close> and whose second byte is
  \<^verbatim>\<open>B\<close> or \<^verbatim>\<open>A\<close> is accepted by \<^verbatim>\<open>parseProposal\<close>: the error is nil and nothing but the
  proposal's code is written.  The "Unsupported proposal code" error is what a second
  byte other than \<^verbatim>\<open>A\<close>, \<^verbatim>\<open>B\<close>, \<^verbatim>\<open>C\<close>, \<^verbatim>\<open>D\<close> gives.
\<close>
theorem parseProposal_basic_ascii_accepted:
  assumes "2 \<le> length line" and "line ! 0 = CHR ''F''"
    and "line ! 1 \<noteq> CHR ''C''" and "line ! 1 \<noteq> CHR ''D''"
  shows "parseProposal line prop =
     Returns (if line ! 1 = CHR ''B'' \<or> line ! 1 = CHR ''A'' then None
              else Some (ErrorString (''Unsupported proposal code '' @ [CHR 0x27]
                        @ fmt_c (line ! 1) @ [CHR 0x27])),
              prop\<lparr>code := line ! 1\<rparr>)"
  using assms
  by (auto simp: parseProposal_def BasicProposal_def AsciiProposal_def Wl2kProposal_def
      GzipProposal_def Let_def)

theorem parseProposal_basic_ascii_accepted_witness:
  "parseProposal ''FB EM MID123 10 5 0'' zero_Proposal =
     Returns (None, zero_Proposal\<lparr>code := CHR ''B''\<rparr>)
   \<and> parseProposal ''FX EM MID123 10 5 0'' zero_Proposal =
     Returns (Some (ErrorString (''Unsupported proposal code '' @ [CHR 0x27, CHR ''X'', CHR 0x27])),
              zero_Proposal\<lparr>code := CHR ''X''\<rparr>)"
  using parseProposal_basic_ascii_accepted [of "''FB EM MID123 10 5 0''" zero_Proposal]
    parseProposal_basic_ascii_accepted [of "''FX EM MID123 10 5 0''" zero_Proposal]
  by (simp add: fmt_c_def)

text \<open>
  Claim C4 as stated fails: a basic (\<^verbatim>\<open>FB\<close>) and a compressed ASCII (\<^verbatim>\<open>FA\<close>) proposal line
  are both parsed without error.
\<close>
theorem parseProposal_FB_FA_counterexample:
  "parseProposal ''FB EM MID123 10 5 0'' zero_Proposal =
     Returns (None, zero_Proposal\<lparr>code := CHR ''B''\<rparr>)
   \<and> parseProposal ''FA EM MID123 10 5 0'' zero_Proposal =
     Returns (None, zero_Proposal\<lparr>code := CHR ''A''\<rparr>)"
  by (simp add: parseProposal_def BasicProposal_def AsciiProposal_def)




subsection \<open>The directory mailbox handler\<close>

lemma fws_loop_ex: "fws_loop IsOnlyReceiver m fws \<longleftrightarrow> (\<exists>fw \<in> set fws. IsOnlyReceiver m fw)"
  by (induction fws) auto

lemma GetOutbound_loop_forwarders:
  "fws \<noteq> [] \<Longrightarrow>
   GetOutbound_loop IsOnlyReceiver h fws all deliver =
     deliver @ filter (\<lambda>m. \<not> deferred_at h (Message_MID m)
                        \<and> (\<exists>fw \<in> set fws. IsOnlyReceiver m fw)) all"
  by (induction all arbitrary: deliver) (auto simp: fws_loop_ex)

lemma GetOutbound_loop_cms:
  "GetOutbound_loop IsOnlyReceiver h [] all deliver =
     deliver @ map del_private
       (filter (\<lambda>m. \<not> deferred_at h (Message_MID m)
                  \<and> Header_Get (Header m) ''X-P2POnly'' \<noteq> ''true'') all)"
  by (induction all arbitrary: deliver) auto

lemma Header_Del_keys: "(k, v) \<in> set (Header_Del h key) \<longleftrightarrow> (k, v) \<in> set h \<and> \<not> key_eq k key"
  by (auto simp: Header_Del_def)

lemma Header_Get_absent: "\<forall>(k, v) \<in> set h. \<not> key_eq k key \<Longrightarrow> Header_Get h key = []"
  by (induction h) auto

lemma del_private_no_p2p:
  "(k, v) \<in> set (Header (del_private m)) \<Longrightarrow> \<not> key_eq k ''X-P2POnly''"
  by (simp add: del_private_def Header_Del_keys)

text \<open>
  Claim C6.  With forwarders given, every message \<^verbatim>\<open>GetOutbound\<close> returns passes
  \<^verbatim>\<open>IsOnlyReceiver\<close> for one of them.  With none given, no returned message has a header
  \<^verbatim>\<open>X-P2POnly\<close> of value \<^verbatim>\<open>true\<close>: \<^verbatim>\<open>Get\<close> does not answer \<^verbatim>\<open>true\<close>, and no value at all is left
  under that key.
\<close>
theorem GetOutbound_filters:
  "(fws \<noteq> [] \<longrightarrow>
      (\<forall>m \<in> set (GetOutbound IsOnlyReceiver h all fws). \<exists>fw \<in> set fws. IsOnlyReceiver m fw))
   \<and> (fws = [] \<longrightarrow>
      (\<forall>m \<in> set (GetOutbound IsOnlyReceiver h all fws).
         Header_Get (Header m) ''X-P2POnly'' \<noteq> ''true''
         \<and> (\<forall>(k, v) \<in> set (Header m). \<not> key_eq k ''X-P2POnly'')))"
proof -
  have fw: "\<exists>fw \<in> set fws. IsOnlyReceiver m fw"
    if "fws \<noteq> []" and "m \<in> set (GetOutbound IsOnlyReceiver h all fws)" for m
    using that by (simp add: GetOutbound_def GetOutbound_loop_forwarders)
  have cms: "Header_Get (Header m) ''X-P2POnly'' \<noteq> ''true''
      \<and> (\<forall>(k, v) \<in> set (Header m). \<not> key_eq k ''X-P2POnly'')"
    if "fws = []" and "m \<in> set (GetOutbound IsOnlyReceiver h all fws)" for m
  proof -
    from that obtain m0 where m: "m = del_private m0"
      by (auto simp: GetOutbound_def GetOutbound_loop_cms)
    have none: "\<forall>(k, v) \<in> set (Header m). \<not> key_eq k ''X-P2POnly''"
      using del_private_no_p2p [of _ _ m0] by (auto simp: m)
    then have "Header_Get (Header m) ''X-P2POnly'' = []"
      by (rule Header_Get_absent)
    with none show ?thesis by simp
  qed
  show ?thesis
    using fw cms by blast
qed

theorem GetOutbound_filters_witness:
  "GetOutbound to_is dir_handler outbox [''LA5NTA'', ''LA1B''] = [msg_p2p, msg_plain, msg_mixed]
   \<and> to_is msg_p2p ''LA1B'' \<and> to_is msg_plain ''LA5NTA'' \<and> to_is msg_mixed ''LA1B''
   \<and> GetOutbound to_is dir_handler outbox ([] :: string list) =
        [del_private msg_plain, del_private msg_mixed]
   \<and> Header_Get (Header (del_private msg_plain)) ''X-P2POnly'' \<noteq> ''true''
   \<and> Header_Get (Header (del_private msg_mixed)) ''X-P2POnly'' \<noteq> ''true''"
proof -
  have fw: "GetOutbound to_is dir_handler outbox [''LA5NTA'', ''LA1B''] =
      [msg_p2p, msg_plain, msg_mixed]"
    by code_simp
  have cms: "GetOutbound to_is dir_handler outbox ([] :: string list) =
      [del_private msg_plain, del_private msg_mixed]"
    by code_simp
  have t: "to_is msg_p2p ''LA1B''" "to_is msg_plain ''LA5NTA''" "to_is msg_mixed ''LA1B''"
    by code_simp+
  show ?thesis
    using GetOutbound_filters [of "[''LA5NTA'', ''LA1B'']" to_is dir_handler outbox]
      GetOutbound_filters [of "[] :: string list" to_is dir_handler outbox]
    by (simp add: fw cms t)
qed

text \<open>
  Claim C10.  With forwarders given, \<^verbatim>\<open>GetOutbound\<close> returns messages of the outbox as they
  were loaded, every header in place: those not deferred that pass \<^verbatim>\<open>IsOnlyReceiver\<close> for
  a forwarder.  With none given, it returns those neither deferred nor marked
  \<^verbatim>\<open>X-P2POnly\<close>, each with the headers \<^verbatim>\<open>X-P2POnly\<close>, \<^verbatim>\<open>X-FilePath\<close> and \<^verbatim>\<open>X-Unread\<close> deleted.
\<close>
theorem GetOutbound_private_headers:
  "(fws \<noteq> [] \<longrightarrow>
      GetOutbound IsOnlyReceiver h all fws =
        filter (\<lambda>m. \<not> deferred_at h (Message_MID m)
                   \<and> (\<exists>fw \<in> set fws. IsOnlyReceiver m fw)) all)
   \<and> (fws = [] \<longrightarrow>
      GetOutbound IsOnlyReceiver h all fws =
        map (\<lambda>m. m\<lparr>Header := Header_Del (Header_Del (Header_Del (Header m) ''X-P2POnly'')
                     ''X-FilePath'') ''X-Unread''\<rparr>)
          (filter (\<lambda>m. \<not> deferred_at h (Message_MID m)
                     \<and> Header_Get (Header m) ''X-P2POnly'' \<noteq> ''true'') all))"
  using GetOutbound_loop_forwarders [of fws IsOnlyReceiver h all "[]"]
    GetOutbound_loop_cms [of IsOnlyReceiver h all "[]"]
  by (auto simp: GetOutbound_def del_private_def)

theorem GetOutbound_private_headers_witness:
  "GetOutbound to_is dir_handler outbox [''LA5NTA'', ''LA1B''] = [msg_p2p, msg_plain, msg_mixed]
   \<and> GetOutbound to_is dir_handler outbox ([] :: string list) =
       [msg_plain\<lparr>Header := [(''Mid'', ''BBBBBBBBBBBB''), (''To'', ''LA5NTA'')]\<rparr>,
        msg_mixed\<lparr>Header := [(''Mid'', ''DDDDDDDDDDDD''), (''To'', ''LA1B'')]\<rparr>]"
proof -
  have fw: "filter (\<lambda>m. \<not> deferred_at dir_handler (Message_MID m)
                   \<and> (\<exists>fw \<in> set [''LA5NTA'', ''LA1B'']. to_is m fw)) outbox = [msg_p2p, msg_plain, msg_mixed]"
    by code_simp
  have cms: "map (\<lambda>m. m\<lparr>Header := Header_Del (Header_Del (Header_Del (Header m) ''X-P2POnly'')
                     ''X-FilePath'') ''X-Unread''\<rparr>)
          (filter (\<lambda>m. \<not> deferred_at dir_handler (Message_MID m)
                     \<and> Header_Get (Header m) ''X-P2POnly'' \<noteq> ''true'') outbox) = [msg_plain\<lparr>Header := [(''Mid'', ''BBBBBBBBBBBB''), (''To'', ''LA5NTA'')]\<rparr>,
        msg_mixed\<lparr>Header := [(''Mid'', ''DDDDDDDDDDDD''), (''To'', ''LA1B'')]\<rparr>]"
    by code_simp
  from GetOutbound_private_headers [of "[''LA5NTA'', ''LA1B'']" to_is dir_handler outbox]
  have a: "GetOutbound to_is dir_handler outbox [''LA5NTA'', ''LA1B''] =
      [msg_p2p, msg_plain, msg_mixed]"
    unfolding fw by simp
  from GetOutbound_private_headers [of "[] :: string list" to_is dir_handler outbox]
  have b: "GetOutbound to_is dir_handler outbox ([] :: string list) =
       [msg_plain\<lparr>Header := [(''Mid'', ''BBBBBBBBBBBB''), (''To'', ''LA5NTA'')]\<rparr>,
        msg_mixed\<lparr>Header := [(''Mid'', ''DDDDDDDDDDDD''), (''To'', ''LA1B'')]\<rparr>]"
    unfolding cms by simp
  show ?thesis
    using a b by simp
qed

subsection \<open>Rig control over TCP\<close>

text \<open>
  Claim C8.  \<^verbatim>\<open>dial\<close> returns at its first \<^verbatim>\<open>return\<close>, whatever the dialer would do: the
  error is nil, the rig is as it was (no connection is assigned to \<open>tcpConn\<close> or \<open>conn\<close>),
  and the world has seen the old connection closed, if there was one, and then the first
  message printed.
\<close>
theorem dial_returns_before_dialing:
  "dial sys r w =
     Return (None, r,
       fmt_Printf sys ''Koitetaan''
         (case conn r of None \<Rightarrow> w | Some c \<Rightarrow> textproto_Close sys c w))"
  by (simp add: dial_def next_stmt_def dial_close_old_def dial_print_try_def
      dial_return_err_def)

subsection \<open>Ordering the proposals to offer\<close>

lemma insert_by_key:
  "insert_by (\<lambda>a b. f a < f b) x ys = insort_key f x ys" for f :: "'a \<Rightarrow> 'k::linorder"
  by (induction ys) (auto simp: not_less)

lemma insertion_sort_key:
  "insertion_sort (\<lambda>a b. f a < f b) xs = sort_key f xs" for f :: "'a \<Rightarrow> 'k::linorder"
  unfolding insertion_sort_def sort_key_def
  by (induction xs) (auto simp: insert_by_key)

lemma is_stable_sort_key:
  "is_stable_sort (\<lambda>a b. f a < f b) (insertion_sort (\<lambda>a b. f a < f b))"
  for f :: "'a \<Rightarrow> 'k::linorder"
proof -
  have s: "sorted_wrt (\<lambda>a b. \<not> f b < f a) (sort_key f xs)" for xs
    using sorted_sort_key [of f xs] by (simp add: sorted_map not_less)
  have e: "(\<lambda>y. \<not> f x < f y \<and> \<not> f y < f x) = (\<lambda>y. f y = f x)" for x
    by auto
  show ?thesis
    unfolding is_stable_sort_def is_sort_def insertion_sort_key
    by (simp add: s e sort_key_stable)
qed

lemma bySize_Less_key: "bySize_Less = (\<lambda>a b. (compressedSize a, MID a) < (compressedSize b, MID b))"
  by (auto simp: bySize_Less_def fun_eq_iff)

lemma byPrecedence_Less_key: "byPrecedence_Less = (\<lambda>a b. precedence a < precedence b)"
  by (auto simp: byPrecedence_Less_def fun_eq_iff)

lemma insertion_sort_bySize: "is_sort bySize_Less (insertion_sort bySize_Less)"
  unfolding bySize_Less_key using is_stable_sort_key [of "\<lambda>a. (compressedSize a, MID a)"]
  by (simp add: is_stable_sort_def)

lemma insertion_sort_byPrecedence: "is_stable_sort byPrecedence_Less (insertion_sort byPrecedence_Less)"
  unfolding byPrecedence_Less_key by (rule is_stable_sort_key)

lemma sorted_wrt_filter_nth:
  "sorted_wrt R (filter P xs) \<Longrightarrow> i < j \<Longrightarrow> j < length xs \<Longrightarrow> P (xs ! i) \<Longrightarrow> P (xs ! j)
    \<Longrightarrow> R (xs ! i) (xs ! j)"
proof (induction xs arbitrary: i j)
  case Nil
  then show ?case by simp
next
  case (Cons x xs)
  from Cons.prems(2) obtain j' where j: "j = Suc j'" by (cases j) auto
  have tl: "sorted_wrt R (filter P xs)"
    using Cons.prems(1) by (auto split: if_splits)
  show ?case
  proof (cases i)
    case 0
    with Cons.prems j have "P x" and "xs ! j' \<in> set (filter P xs)" by auto
    with Cons.prems(1) have "R x (xs ! j')" by auto
    with 0 j show ?thesis by simp
  next
    case (Suc i')
    with Cons.prems j Cons.IH [OF tl, of i' j'] show ?thesis by simp
  qed
qed

text \<open>
  Claim C1.  Whatever functions stand for \<^verbatim>\<open>sort.Sort\<close> and \<^verbatim>\<open>sort.Stable\<close>, as long as they
  keep the library's contract for the two orderings, \<^verbatim>\<open>sortProposals\<close> gives a permutation
  of the proposals in which, for positions \<open>i < j\<close>, the precedence at \<open>i\<close> is at most
  that at \<open>j\<close>; where the precedences are equal the compressed size at \<open>i\<close> is at most
  that at \<open>j\<close>; and where the sizes are equal too the MID at \<open>i\<close> is at most that at
  \<open>j\<close>.
\<close>
theorem sortProposals_sorted:
  assumes "is_sort bySize_Less (sort_Sort bySize_Less)"
    and "is_stable_sort byPrecedence_Less (sort_Stable byPrecedence_Less)"
  shows "mset (sortProposals sort_Sort sort_Stable props) = mset props
    \<and> (\<forall>i j. i < j \<and> j < length (sortProposals sort_Sort sort_Stable props) \<longrightarrow>
         precedence (sortProposals sort_Sort sort_Stable props ! i)
           \<le> precedence (sortProposals sort_Sort sort_Stable props ! j)
         \<and> (precedence (sortProposals sort_Sort sort_Stable props ! i)
              = precedence (sortProposals sort_Sort sort_Stable props ! j) \<longrightarrow>
            compressedSize (sortProposals sort_Sort sort_Stable props ! i)
              \<le> compressedSize (sortProposals sort_Sort sort_Stable props ! j)
            \<and> (compressedSize (sortProposals sort_Sort sort_Stable props ! i)
                 = compressedSize (sortProposals sort_Sort sort_Stable props ! j) \<longrightarrow>
               MID (sortProposals sort_Sort sort_Stable props ! i)
                 \<le> MID (sortProposals sort_Sort sort_Stable props ! j))))"
proof -
  define ys where "ys = sort_Sort bySize_Less props"
  define zs where "zs = sort_Stable byPrecedence_Less ys"
  have zs: "sortProposals sort_Sort sort_Stable props = zs"
    by (simp add: sortProposals_def zs_def ys_def)
  have ys_mset: "mset ys = mset props" and ys_sorted: "sorted_wrt (\<lambda>a b. \<not> bySize_Less b a) ys"
    using assms(1) by (simp_all add: is_sort_def ys_def)
  have zs_mset: "mset zs = mset ys"
    and zs_sorted: "sorted_wrt (\<lambda>a b. \<not> byPrecedence_Less b a) zs"
    and zs_stable: "filter (\<lambda>y. \<not> byPrecedence_Less x y \<and> \<not> byPrecedence_Less y x) zs =
      filter (\<lambda>y. \<not> byPrecedence_Less x y \<and> \<not> byPrecedence_Less y x) ys" for x
    using assms(2) by (simp_all add: is_stable_sort_def is_sort_def zs_def)
  have order: "precedence (zs ! i) \<le> precedence (zs ! j)
      \<and> (precedence (zs ! i) = precedence (zs ! j) \<longrightarrow>
           compressedSize (zs ! i) \<le> compressedSize (zs ! j)
           \<and> (compressedSize (zs ! i) = compressedSize (zs ! j) \<longrightarrow> MID (zs ! i) \<le> MID (zs ! j)))"
    if "i < j" and "j < length zs" for i j
  proof -
    have p: "precedence (zs ! i) \<le> precedence (zs ! j)"
      using sorted_wrt_nth_less [OF zs_sorted that] by (simp add: byPrecedence_Less_def)
    have s: "compressedSize (zs ! i) \<le> compressedSize (zs ! j)
           \<and> (compressedSize (zs ! i) = compressedSize (zs ! j) \<longrightarrow> MID (zs ! i) \<le> MID (zs ! j))"
      if eq: "precedence (zs ! i) = precedence (zs ! j)"
    proof -
      let ?E = "\<lambda>y. \<not> byPrecedence_Less (zs ! i) y \<and> \<not> byPrecedence_Less y (zs ! i)"
      have "sorted_wrt (\<lambda>a b. \<not> bySize_Less b a) (filter ?E ys)"
        using ys_sorted by (rule sorted_wrt_filter)
      then have srt: "sorted_wrt (\<lambda>a b. \<not> bySize_Less b a) (filter ?E zs)"
        by (simp add: zs_stable)
      have Ei: "?E (zs ! i)" and Ej: "?E (zs ! j)"
        using eq by (simp_all add: byPrecedence_Less_def)
      have "\<not> bySize_Less (zs ! j) (zs ! i)"
        using sorted_wrt_filter_nth [OF srt \<open>i < j\<close> \<open>j < length zs\<close> Ei Ej] .
      then show ?thesis
        by (auto simp: bySize_Less_def split: if_splits)
    qed
    from p s show ?thesis by blast
  qed
  show ?thesis
    unfolding zs using zs_mset ys_mset order by simp
qed

theorem sortProposals_sorted_witness:
  "sortProposals insertion_sort insertion_sort offers =
     [offer ''MIDFLASH0001'' ''//WL2K Z/ Flood'' 50, offer ''MIDPRIORITY1'' ''//WL2K P/ Supplies'' 100,
      offer ''MIDROUTINE1A'' ''Nets'' 10, offer ''MIDROUTINE1B'' ''Weather'' 10,
      offer ''MIDROUTINE20'' ''Hello'' 20]
   \<and> mset (sortProposals insertion_sort insertion_sort offers) = mset offers
   \<and> precedence (sortProposals insertion_sort insertion_sort offers ! 2)
       = precedence (sortProposals insertion_sort insertion_sort offers ! 3)
   \<and> compressedSize (sortProposals insertion_sort insertion_sort offers ! 2)
       = compressedSize (sortProposals insertion_sort insertion_sort offers ! 3)
   \<and> MID (sortProposals insertion_sort insertion_sort offers ! 2)
       \<le> MID (sortProposals insertion_sort insertion_sort offers ! 3)"
proof -
  have ev: "sortProposals insertion_sort insertion_sort offers =
     [offer ''MIDFLASH0001'' ''//WL2K Z/ Flood'' 50, offer ''MIDPRIORITY1'' ''//WL2K P/ Supplies'' 100,
      offer ''MIDROUTINE1A'' ''Nets'' 10, offer ''MIDROUTINE1B'' ''Weather'' 10,
      offer ''MIDROUTINE20'' ''Hello'' 20]"
    by code_simp
  have pr: "precedence (offer ''MIDROUTINE1A'' ''Nets'' 10) = precedence (offer ''MIDROUTINE1B'' ''Weather'' 10)"
    by code_simp
  have sz: "compressedSize (offer ''MIDROUTINE1A'' ''Nets'' 10) = compressedSize (offer ''MIDROUTINE1B'' ''Weather'' 10)"
    by (simp add: offer_def)
  from sortProposals_sorted [of insertion_sort insertion_sort offers,
      OF insertion_sort_bySize insertion_sort_byPrecedence]
  have m: "mset (sortProposals insertion_sort insertion_sort offers) = mset offers"
    and o: "2 < (3::nat) \<and> 3 < length (sortProposals insertion_sort insertion_sort offers) \<longrightarrow>
       (precedence (sortProposals insertion_sort insertion_sort offers ! 2)
       = precedence (sortProposals insertion_sort insertion_sort offers ! 3) \<longrightarrow>
       (compressedSize (sortProposals insertion_sort insertion_sort offers ! 2)
       = compressedSize (sortProposals insertion_sort insertion_sort offers ! 3) \<longrightarrow>
       MID (sortProposals insertion_sort insertion_sort offers ! 2)
       \<le> MID (sortProposals insertion_sort insertion_sort offers ! 3)))"
    by blast+
  from o have "MID (sortProposals insertion_sort insertion_sort offers ! 2)
       \<le> MID (sortProposals insertion_sort insertion_sort offers ! 3)"
    unfolding ev using pr sz by simp
  with m ev pr sz show ?thesis by simp
qed

subsection \<open>The session\<close>

lemma alternating_nth:
  "alternating t ts \<Longrightarrow> Suc i < length ts \<Longrightarrow> ts ! Suc i \<noteq> ts ! i"
proof (induction ts arbitrary: t i)
  case Nil
  then show ?case by simp
next
  case (Cons x xs)
  show ?case
  proof (cases i)
    case 0
    with Cons.prems show ?thesis by (cases xs) (auto split: if_splits)
  next
    case (Suc k)
    with Cons.prems Cons.IH show ?thesis by auto
  qed
qed

lemma turn_loop_alternating:
  "turn_loop fuel E c myTurn s w = Some (ts, err, s', w') \<Longrightarrow>
     alternating (if myTurn then Outbound else Inbound) ts \<and> (err = None \<longrightarrow> Done s')"
proof (induction fuel arbitrary: myTurn s w ts err s' w')
  case 0
  then show ?case by (auto split: if_splits)
next
  case (Suc fuel)
  show ?case
  proof (cases "Done s")
    case True
    with Suc.prems show ?thesis by auto
  next
    case False
    show ?thesis
    proof (cases myTurn)
      case True
      obtain quit e1 s1 w1 where h: "handleOutbound E c s w = ((quit, e1), s1, w1)"
        by (metis prod.exhaust)
      show ?thesis
      proof (cases e1)
        case None
        with Suc.prems False True h obtain ts' where
          r: "turn_loop fuel E c False (s1\<lparr>quitSent := quit\<rparr>) w1 = Some (ts', err, s', w')"
          and ts: "ts = Outbound # ts'"
          by auto
        from Suc.IH [OF r] ts True show ?thesis by simp
      next
        case (Some e)
        with Suc.prems False True h show ?thesis by auto
      qed
    next
      case nt: False
      obtain quit e1 s1 w1 where h: "handleInbound E c s w = ((quit, e1), s1, w1)"
        by (metis prod.exhaust)
      show ?thesis
      proof (cases e1)
        case None
        with Suc.prems False nt h obtain ts' where
          r: "turn_loop fuel E c True (s1\<lparr>quitReceived := quit\<rparr>) w1 = Some (ts', err, s', w')"
          and ts: "ts = Inbound # ts'"
          by auto
        from Suc.IH [OF r] ts nt show ?thesis by simp
      next
        case (Some e)
        with Suc.prems False nt h show ?thesis by auto
      qed
    qed
  qed
qed

lemma Exchange_turns_alternating:
  assumes "Exchange_turns fuel E c s w = Some (ts, stats, err, s', w')"
  shows "alternating (if master s then Inbound else Outbound) ts \<and> (err = None \<longrightarrow> Done s')"
proof -
  from assms obtain e4 w4 where
    t: "turn_loop fuel E c (\<not> master s) s w = Some (ts, e4, s', w4)" and "err = None \<longrightarrow> e4 = None"
    by (auto simp: Exchange_turns_def split: option.splits prod.splits)
  with turn_loop_alternating [OF t] show ?thesis by auto
qed

lemma Exchange_body_steps:
  assumes "prepare_mbox (fw_aux_only E s w) w = (perr, w1)"
    and "handshake E c (fw_aux_only E s w)
       (set_robust c (robustMode (fw_aux_only E s w) \<noteq> RobustDisabled) w1) = (herr, s3, w3)"
  shows "Exchange_body fuel E s c w =
     (if perr \<noteq> None then Some (False, [], zero_TrafficStats, perr, fw_aux_only E s w, w1)
      else if herr \<noteq> None then
        Some (conn_SetRobust c \<noteq> None, [], zero_TrafficStats, herr, s3, w3)
      else map_option (Pair (conn_SetRobust c \<noteq> None)) (Exchange_turns fuel E c s3 w3))"
  using assms by (simp add: Exchange_body_def Let_def)

lemma Exchange_body_turns:
  assumes "Exchange_body fuel E s c w = Some (d, ts, stats, err, s', w')"
    and "\<forall>s w. master (fst (snd (handshake E c s w))) = master s"
  shows "alternating (if master s then Inbound else Outbound) ts \<and> (err = None \<longrightarrow> Done s')"
proof -
  obtain perr w1 where p: "prepare_mbox (fw_aux_only E s w) w = (perr, w1)"
    by (metis prod.exhaust)
  obtain herr s3 w3 where hs:
    "handshake E c (fw_aux_only E s w)
       (set_robust c (robustMode (fw_aux_only E s w) \<noteq> RobustDisabled) w1) = (herr, s3, w3)"
    by (metis prod.exhaust)
  have m1: "master (fw_aux_only E s w) = master s"
    by (simp add: fw_aux_only_def)
  have m3: "master s3 = master s"
    using assms(2) [rule_format, of "fw_aux_only E s w"
        "set_robust c (robustMode (fw_aux_only E s w) \<noteq> RobustDisabled) w1"] hs m1
    by simp
  note body = assms(1) [unfolded Exchange_body_steps [OF p hs]]
  show ?thesis
  proof (cases "perr \<noteq> None \<or> herr \<noteq> None")
    case True
    with body have "ts = [] \<and> err \<noteq> None"
      by (auto split: if_splits)
    then show ?thesis by auto
  next
    case False
    with body have "Exchange_turns fuel E c s3 w3 = Some (ts, stats, err, s', w')"
      by auto
    from Exchange_turns_alternating [OF this] m3 show ?thesis by simp
  qed
qed

lemma Exchange_turns_ok:
  assumes "Exchange fuel E s c w = Some (ts, stats, err, s', w')"
    and "\<forall>s w. master (fst (snd (handshake E c s w))) = master s"
  shows "alternating (if master s then Inbound else Outbound) ts \<and> (err = None \<longrightarrow> Done s')"
proof (cases "Done s")
  case True
  with assms(1) show ?thesis by (auto simp: Exchange_def)
next
  case False
  with assms(1) obtain d e0 w0 where
    b: "Exchange_body fuel E s c w = Some (d, ts, stats, e0, s', w0)"
    and e: "err = fst (Exchange_deferred E c e0 (if d then set_robust c False w0 else w0))"
    by (auto simp: Exchange_def Let_def split: option.splits prod.splits)
  have "err = None \<longrightarrow> e0 = None"
    using e by (auto simp: Exchange_deferred_def Let_def split: option.splits if_splits)
  with Exchange_body_turns [OF b assms(2)] show ?thesis by simp
qed

lemma turn_loop_Done:
  "Done s \<Longrightarrow> turn_loop fuel E c myTurn s w = Some ([], None, s, w)"
  by (cases fuel) simp_all

lemma turn_loop_error:
  "\<not> Done s \<Longrightarrow>
   (if myTurn then handleOutbound E c s w else handleInbound E c s w) = ((quit, Some e), s1, w1) \<Longrightarrow>
   turn_loop (Suc fuel) E c myTurn s w =
     Some ([if myTurn then Outbound else Inbound], Some e,
           (if myTurn then s1\<lparr>quitSent := quit\<rparr> else s1\<lparr>quitReceived := quit\<rparr>), w1)"
  by (cases myTurn) simp_all

lemma turn_loop_continue:
  "\<not> Done s \<Longrightarrow>
   (if myTurn then handleOutbound E c s w else handleInbound E c s w) = ((quit, None), s1, w1) \<Longrightarrow>
   turn_loop (Suc fuel) E c myTurn s w =
     map_option (\<lambda>(ts, r). ((if myTurn then Outbound else Inbound) # ts, r))
       (turn_loop fuel E c (\<not> myTurn) 
          (if myTurn then s1\<lparr>quitSent := quit\<rparr> else s1\<lparr>quitReceived := quit\<rparr>) w1)"
  by (cases myTurn) simp_all

lemma Exchange_deferred_report:
  "Exchange_deferred E c (Some e) w = claimed_report E c e w"
  by (simp add: Exchange_deferred_def claimed_report_def Minute_def Second_def)

lemma set_robust_None: "conn_SetRobust c = None \<Longrightarrow> set_robust c b w = w"
  by (simp add: set_robust_def)

lemma Exchange_steps:
  assumes "\<not> Done s"
    and "prepare_mbox (fw_aux_only E s w) w = (perr, w1)"
    and "handshake E c (fw_aux_only E s w)
       (set_robust c (robustMode (fw_aux_only E s w) \<noteq> RobustDisabled) w1) = (herr, s3, w3)"
  shows "Exchange fuel E s c w =
     (if perr \<noteq> None then
        Some ([], zero_TrafficStats, fst (Exchange_deferred E c perr w1), fw_aux_only E s w,
              snd (Exchange_deferred E c perr w1))
      else if herr \<noteq> None then
        Some ([], zero_TrafficStats, fst (Exchange_deferred E c herr (set_robust c False w3)), s3,
              snd (Exchange_deferred E c herr (set_robust c False w3)))
      else
        (case turn_loop fuel E c (\<not> master s3) s3 w3 of
           None \<Rightarrow> None
         | Some (ts, Some e, s4, w4) \<Rightarrow>
             Some (ts, trafficStats s4,
                   fst (Exchange_deferred E c (Some e) (set_robust c False w4)), s4,
                   snd (Exchange_deferred E c (Some e) (set_robust c False w4)))
         | Some (ts, None, s4, w4) \<Rightarrow>
             Some (ts, trafficStats s4,
                   fst (Exchange_deferred E c (fst (conn_Close c w4))
                          (set_robust c False (snd (conn_Close c w4)))), s4,
                   snd (Exchange_deferred E c (fst (conn_Close c w4))
                          (set_robust c False (snd (conn_Close c w4)))))))"
  using assms(1)
  by (auto simp: Exchange_def Exchange_body_steps [OF assms(2,3)] Exchange_turns_def Let_def
      set_robust_None split: option.splits prod.splits)


lemma Exchange_Prepare_fails:
  assumes "\<not> Done s" and "prepare_mbox (fw_aux_only E s w) w = (Some e, w1)"
  shows "Exchange fuel E s c w =
     Some ([], zero_TrafficStats, fst (claimed_report E c e w1), fw_aux_only E s w,
           snd (claimed_report E c e w1))"
proof -
  obtain herr s3 w3 where hs:
    "handshake E c (fw_aux_only E s w)
       (set_robust c (robustMode (fw_aux_only E s w) \<noteq> RobustDisabled) w1) = (herr, s3, w3)"
    by (metis prod.exhaust)
  show ?thesis
    by (simp add: Exchange_steps [OF assms hs] Exchange_deferred_report)
qed

lemma Exchange_handshake_fails:
  assumes "\<not> Done s" and "prepare_mbox (fw_aux_only E s w) w = (None, w1)"
    and "handshake E c (fw_aux_only E s w)
       (set_robust c (robustMode (fw_aux_only E s w) \<noteq> RobustDisabled) w1) = (Some e, s3, w3)"
  shows "Exchange fuel E s c w =
     Some ([], zero_TrafficStats, fst (claimed_report E c e (set_robust c False w3)), s3,
           snd (claimed_report E c e (set_robust c False w3)))"
  by (simp add: Exchange_steps [OF assms] Exchange_deferred_report)

lemma Exchange_loop_fails:
  assumes "\<not> Done s" and "prepare_mbox (fw_aux_only E s w) w = (None, w1)"
    and "handshake E c (fw_aux_only E s w)
       (set_robust c (robustMode (fw_aux_only E s w) \<noteq> RobustDisabled) w1) = (None, s3, w3)"
    and "turn_loop fuel E c (\<not> master s3) s3 w3 = Some (ts, Some e, s4, w4)"
  shows "Exchange fuel E s c w =
     Some (ts, trafficStats s4, fst (claimed_report E c e (set_robust c False w4)), s4,
           snd (claimed_report E c e (set_robust c False w4)))"
  by (simp add: Exchange_steps [OF assms(1,2,3)] assms(4) Exchange_deferred_report)

lemma Exchange_Close_fails:
  assumes "\<not> Done s" and "prepare_mbox (fw_aux_only E s w) w = (None, w1)"
    and "handshake E c (fw_aux_only E s w)
       (set_robust c (robustMode (fw_aux_only E s w) \<noteq> RobustDisabled) w1) = (None, s3, w3)"
    and "turn_loop fuel E c (\<not> master s3) s3 w3 = Some (ts, None, s4, w4)"
    and "conn_Close c w4 = (Some e, w5)"
  shows "Exchange fuel E s c w =
     Some (ts, trafficStats s4, fst (claimed_report E c e (set_robust c False w5)), s4,
           snd (claimed_report E c e (set_robust c False w5)))"
  by (simp add: Exchange_steps [OF assms(1,2,3)] assms(4,5) Exchange_deferred_report)

lemma Exchange_first_turn_fails:
  assumes "\<not> Done s" and "prepare_mbox (fw_aux_only E s w) w = (None, w1)"
    and "handshake E c (fw_aux_only E s w)
       (set_robust c (robustMode (fw_aux_only E s w) \<noteq> RobustDisabled) w1) = (None, s3, w3)"
    and "\<not> Done s3"
    and "(if master s3 then handleInbound E c s3 w3 else handleOutbound E c s3 w3)
           = ((quit, Some e), sa, wa)"
  shows "Exchange (Suc n) E s c w =
     Some ([if master s3 then Inbound else Outbound], trafficStats sa,
           fst (claimed_report E c e (set_robust c False wa)),
           (if master s3 then sa\<lparr>quitReceived := quit\<rparr> else sa\<lparr>quitSent := quit\<rparr>),
           snd (claimed_report E c e (set_robust c False wa)))"
proof -
  have "turn_loop (Suc n) E c (\<not> master s3) s3 w3 =
      Some ([if master s3 then Inbound else Outbound], Some e,
            (if master s3 then sa\<lparr>quitReceived := quit\<rparr> else sa\<lparr>quitSent := quit\<rparr>), wa)"
    using turn_loop_error [of s3 "\<not> master s3" E c w3 quit e sa wa n] assms(4,5)
    by (cases "master s3") simp_all
  from Exchange_loop_fails [OF assms(1,2,3) this] show ?thesis
    by (cases "master s3") simp_all
qed

lemma Exchange_body_fails:
  assumes "\<not> Done s" and "Exchange_body fuel E s c w = Some (d, ts, stats, Some e, sb, wb)"
  shows "Exchange fuel E s c w =
     Some (ts, stats, fst (claimed_report E c e (if d then set_robust c False wb else wb)), sb,
           snd (claimed_report E c e (if d then set_robust c False wb else wb)))"
  using assms
  by (simp add: Exchange_def Let_def Exchange_deferred_report split: prod.splits)

lemma Exchange_turns_link:
  assumes "\<not> Done s" and "prepare_mbox (fw_aux_only E s w) w = (None, w1)"
    and "handshake E c (fw_aux_only E s w)
       (set_robust c (robustMode (fw_aux_only E s w) \<noteq> RobustDisabled) w1) = (None, s3, w3)"
  shows "map_option fst (Exchange fuel E s c w) =
     map_option fst (turn_loop fuel E c (\<not> master s3) s3 w3)"
  by (auto simp: Exchange_steps [OF assms] split: option.splits)

lemma Done_IsMaster: "Done (IsMaster s b) = Done s"
  by (simp add: Done_def IsMaster_def)

text \<open>
  Claim C2, as the code has it.  The loop starts with \<^verbatim>\<open>myTurn := !s.master\<close>, so a session
  set up as master by \<^verbatim>\<open>IsMaster(true)\<close> takes an inbound turn first and one set up as slave
  an outbound turn; the turns then alternate; the loop takes no turn once \<^verbatim>\<open>Done()\<close> is
  true and stops at the first turn that returns an error.  In order:
  \<^item> after \<^verbatim>\<open>Prepare\<close> and a handshake without error that leave the master flag as it was
    set, the turns of \<^verbatim>\<open>Exchange\<close> are those of the loop started with \<open>myTurn\<close> the negation
    of the flag;
  \<^item> if the session is not done after the handshake, the first turn is inbound for a
    master and outbound for a slave: when it returns an error it is the only turn, and
    otherwise the loop goes on from what it left, with \<open>myTurn\<close> negated;
  \<^item> a loop entered with \<^verbatim>\<open>Done()\<close> true takes no turn and changes nothing;
  \<^item> a turn that returns an error ends the loop with that error, after the quit flag of its
    side has been stored;
  \<^item> a turn that returns no error is followed by the loop with \<open>myTurn\<close> negated;
  \<^item> in a loop that has ended, the first turn is as \<open>myTurn\<close> says, no two turns in a row
    are of the same kind, a nil error means that \<^verbatim>\<open>Done()\<close> is true, and at least one turn was
    taken if the loop was entered with \<^verbatim>\<open>Done()\<close> false or ended with an error;
  \<^item> so for an exchange that has returned, with a handshake that never changes the master
    flag: the first turn is inbound for a master, the turns alternate, and a nil error
    means that \<^verbatim>\<open>Done()\<close> is true.
\<close>
theorem Exchange_turn_order:
  "(\<not> Done s \<and> prepare_mbox (fw_aux_only E (IsMaster s isMaster) w) w = (None, w1)
     \<and> handshake E c (fw_aux_only E (IsMaster s isMaster) w)
          (set_robust c (robustMode (fw_aux_only E (IsMaster s isMaster) w) \<noteq> RobustDisabled) w1)
        = (None, s3, w3)
     \<and> master s3 = isMaster \<longrightarrow>
      map_option fst (Exchange fuel E (IsMaster s isMaster) c w) =
        map_option fst (turn_loop fuel E c (\<not> isMaster) s3 w3))
   \<and> (\<not> Done s \<and> prepare_mbox (fw_aux_only E (IsMaster s isMaster) w) w = (None, w1)
     \<and> handshake E c (fw_aux_only E (IsMaster s isMaster) w)
          (set_robust c (robustMode (fw_aux_only E (IsMaster s isMaster) w) \<noteq> RobustDisabled) w1)
        = (None, s3, w3)
     \<and> master s3 = isMaster \<and> \<not> Done s3
     \<and> (if isMaster then handleInbound E c s3 w3 else handleOutbound E c s3 w3)
          = ((quit, err1), sa, wa) \<longrightarrow>
      map_option fst (Exchange (Suc n) E (IsMaster s isMaster) c w) =
        (if err1 \<noteq> None then Some [if isMaster then Inbound else Outbound]
         else map_option (\<lambda>r. (if isMaster then Inbound else Outbound) # fst r)
                (turn_loop n E c isMaster
                   (if isMaster then sa\<lparr>quitReceived := quit\<rparr> else sa\<lparr>quitSent := quit\<rparr>)
                   wa)))
   \<and> (Done s' \<longrightarrow> turn_loop fuel E c myTurn s' w' = Some ([], None, s', w'))
   \<and> (\<not> Done s' \<and>
       (if myTurn then handleOutbound E c s' w' else handleInbound E c s' w')
          = ((quit, Some e), s1, w1') \<longrightarrow>
      turn_loop (Suc n) E c myTurn s' w' =
        Some ([if myTurn then Outbound else Inbound], Some e,
              (if myTurn then s1\<lparr>quitSent := quit\<rparr> else s1\<lparr>quitReceived := quit\<rparr>), w1'))
   \<and> (\<not> Done s' \<and>
       (if myTurn then handleOutbound E c s' w' else handleInbound E c s' w')
          = ((quit, None), s1, w1') \<longrightarrow>
      turn_loop (Suc n) E c myTurn s' w' =
        map_option (\<lambda>(ts, r). ((if myTurn then Outbound else Inbound) # ts, r))
          (turn_loop n E c (\<not> myTurn)
             (if myTurn then s1\<lparr>quitSent := quit\<rparr> else s1\<lparr>quitReceived := quit\<rparr>) w1'))
   \<and> (turn_loop fuel E c myTurn s' w' = Some (ts, err, sz, wz) \<longrightarrow>
        (ts \<noteq> [] \<longrightarrow> hd ts = (if myTurn then Outbound else Inbound))
      \<and> (\<forall>i. Suc i < length ts \<longrightarrow> ts ! Suc i \<noteq> ts ! i)
      \<and> (err = None \<longrightarrow> Done sz)
      \<and> (err \<noteq> None \<or> \<not> Done s' \<longrightarrow> ts \<noteq> []))
   \<and> (Exchange fuel E (IsMaster s isMaster) c w = Some (ts, stats, err, sz, wz)
       \<and> (\<forall>s w. master (fst (snd (handshake E c s w))) = master s) \<longrightarrow>
        (ts \<noteq> [] \<longrightarrow> hd ts = (if isMaster then Inbound else Outbound))
      \<and> (\<forall>i. Suc i < length ts \<longrightarrow> ts ! Suc i \<noteq> ts ! i)
      \<and> (err = None \<longrightarrow> Done sz))"
proof -
  have link: "map_option fst (Exchange fuel E (IsMaster s isMaster) c w) =
        map_option fst (turn_loop fuel E c (\<not> isMaster) s3 w3)"
    if "\<not> Done s"
      and "prepare_mbox (fw_aux_only E (IsMaster s isMaster) w) w = (None, w1)"
      and "handshake E c (fw_aux_only E (IsMaster s isMaster) w)
          (set_robust c (robustMode (fw_aux_only E (IsMaster s isMaster) w) \<noteq> RobustDisabled) w1)
        = (None, s3, w3)"
      and "master s3 = isMaster"
    using Exchange_turns_link [of "IsMaster s isMaster" E w w1 c s3 w3 fuel] that
    by (simp add: Done_IsMaster)
  have first: "map_option fst (Exchange (Suc n) E (IsMaster s isMaster) c w) =
        (if err1 \<noteq> None then Some [if isMaster then Inbound else Outbound]
         else map_option (\<lambda>r. (if isMaster then Inbound else Outbound) # fst r)
                (turn_loop n E c isMaster
                   (if isMaster then sa\<lparr>quitReceived := quit\<rparr> else sa\<lparr>quitSent := quit\<rparr>)
                   wa))"
    if "\<not> Done s"
      and "prepare_mbox (fw_aux_only E (IsMaster s isMaster) w) w = (None, w1)"
      and "handshake E c (fw_aux_only E (IsMaster s isMaster) w)
          (set_robust c (robustMode (fw_aux_only E (IsMaster s isMaster) w) \<noteq> RobustDisabled) w1)
        = (None, s3, w3)"
      and "master s3 = isMaster" and "\<not> Done s3"
      and "(if isMaster then handleInbound E c s3 w3 else handleOutbound E c s3 w3)
          = ((quit, err1), sa, wa)"
  proof -
    have l: "map_option fst (Exchange (Suc n) E (IsMaster s isMaster) c w) =
        map_option fst (turn_loop (Suc n) E c (\<not> isMaster) s3 w3)"
      using Exchange_turns_link [of "IsMaster s isMaster" E w w1 c s3 w3 "Suc n"] that(1,2,3,4)
      by (simp add: Done_IsMaster)
    show ?thesis
      unfolding l using that(5,6)
      by (cases isMaster; cases err1) (simp_all add: option.map_comp comp_def case_prod_unfold)
  qed
  have loop: "(ts \<noteq> [] \<longrightarrow> hd ts = (if myTurn then Outbound else Inbound))
      \<and> (\<forall>i. Suc i < length ts \<longrightarrow> ts ! Suc i \<noteq> ts ! i)
      \<and> (err = None \<longrightarrow> Done sz)
      \<and> (err \<noteq> None \<or> \<not> Done s' \<longrightarrow> ts \<noteq> [])"
    if t: "turn_loop fuel E c myTurn s' w' = Some (ts, err, sz, wz)"
  proof -
    from turn_loop_alternating [OF t]
    have a: "alternating (if myTurn then Outbound else Inbound) ts" and d: "err = None \<longrightarrow> Done sz"
      by simp_all
    from a have h: "ts \<noteq> [] \<longrightarrow> hd ts = (if myTurn then Outbound else Inbound)"
      by (cases ts) auto
    have n: "err \<noteq> None \<or> \<not> Done s' \<longrightarrow> ts \<noteq> []"
      using t by (cases fuel) (auto simp: Let_def split: if_splits prod.splits)
    from a d h n show ?thesis
      by (auto dest: alternating_nth)
  qed
  have whole: "(ts \<noteq> [] \<longrightarrow> hd ts = (if isMaster then Inbound else Outbound))
      \<and> (\<forall>i. Suc i < length ts \<longrightarrow> ts ! Suc i \<noteq> ts ! i)
      \<and> (err = None \<longrightarrow> Done sz)"
    if x: "Exchange fuel E (IsMaster s isMaster) c w = Some (ts, stats, err, sz, wz)"
      and m: "\<forall>s w. master (fst (snd (handshake E c s w))) = master s"
  proof -
    from Exchange_turns_ok [OF x m]
    have a: "alternating (if isMaster then Inbound else Outbound) ts" and d: "err = None \<longrightarrow> Done sz"
      by (simp_all add: IsMaster_def)
    from a have "ts \<noteq> [] \<longrightarrow> hd ts = (if isMaster then Inbound else Outbound)"
      by (cases ts) auto
    with a d show ?thesis
      by (auto dest: alternating_nth)
  qed
  show ?thesis
    using link first loop whole turn_loop_Done [of s' fuel E c myTurn w']
      turn_loop_error [of s' myTurn E c w' quit e s1 w1' n]
      turn_loop_continue [of s' myTurn E c w' quit s1 w1' n]
    by blast
qed

lemma log_env_handshake_master:
  "\<forall>s w. master (fst (snd (handshake log_env log_conn s w))) = master s"
  by (simp add: log_env_def)

theorem Exchange_turn_order_witness:
  "map_option fst (Exchange (Suc 9) log_env (IsMaster station True) log_conn []) =
     Some [Inbound, Outbound, Inbound]
   \<and> map_option fst (Exchange (Suc 9) log_env (IsMaster station False) log_conn []) =
     Some [Outbound, Inbound, Outbound, Inbound]
   \<and> turn_loop (Suc 3) deaf_env log_conn True station [Shaken] =
     Some ([Outbound], Some (ErrorString ''Unexpected response''), station, [Shaken, Offered])
   \<and> turn_loop 7 log_env log_conn True (station\<lparr>quitReceived := True\<rparr>) [Shaken] =
     Some ([], None, station\<lparr>quitReceived := True\<rparr>, [Shaken])
   \<and> [Inbound, Outbound, Inbound] ! Suc 0 \<noteq> [Inbound, Outbound, Inbound] ! 0
   \<and> map_option fst (Exchange 2 log_env (IsMaster station True) log_conn []) =
       map_option fst (turn_loop 2 log_env log_conn (\<not> True) (IsMaster station True)
         [Prepared, Robust True, Shaken])
   \<and> turn_loop (Suc 3) log_env log_conn True station [Shaken] =
       map_option (\<lambda>(ts, r). (Outbound # ts, r))
         (turn_loop 3 log_env log_conn (\<not> True) station [Shaken, Offered])
   \<and> Done (station\<lparr>quitReceived := True, remoteNoMsgs := True\<rparr>)"
proof -
  note defs = fw_aux_only_def prepare_mbox_def set_robust_def station_def log_env_def deaf_env_def
    log_conn_def log_mbox_def strconv_ParseBool_def Done_def IsMaster_def
  have a: "map_option fst (Exchange (Suc 9) log_env (IsMaster station True) log_conn []) =
     Some [Inbound, Outbound, Inbound]"
    using Exchange_turn_order [THEN conjunct2, THEN conjunct1, rule_format,
        where s = station and E = log_env and isMaster = True and w = "[]"
          and ?w1.0 = "[Prepared]" and c = log_conn and ?s3.0 = "IsMaster station True"
          and ?w3.0 = "[Prepared, Robust True, Shaken]" and quit = False and ?err1.0 = None
          and sa = "IsMaster station True\<lparr>remoteNoMsgs := True\<rparr>"
          and wa = "[Prepared, Robust True, Shaken, Listened]" and n = 9]
    by (simp add: defs eval_nat_numeral)
  have b: "map_option fst (Exchange (Suc 9) log_env (IsMaster station False) log_conn []) =
     Some [Outbound, Inbound, Outbound, Inbound]"
    using Exchange_turn_order [THEN conjunct2, THEN conjunct1, rule_format,
        where s = station and E = log_env and isMaster = False and w = "[]"
          and ?w1.0 = "[Prepared]" and c = log_conn and ?s3.0 = "IsMaster station False"
          and ?w3.0 = "[Prepared, Robust True, Shaken]" and quit = False and ?err1.0 = None
          and sa = "IsMaster station False"
          and wa = "[Prepared, Robust True, Shaken, Offered]" and n = 9]
    by (simp add: defs eval_nat_numeral)
  have c: "turn_loop (Suc 3) deaf_env log_conn True station [Shaken] =
     Some ([Outbound], Some (ErrorString ''Unexpected response''), station, [Shaken, Offered])"
    using Exchange_turn_order [THEN conjunct2, THEN conjunct2, THEN conjunct2, THEN conjunct1,
        rule_format,
        where s' = station and myTurn = True and E = deaf_env and c = log_conn and w' = "[Shaken]"
          and quit = False and e = "ErrorString ''Unexpected response''" and ?s1.0 = station
          and w1' = "[Shaken, Offered]" and n = 3]
    by (simp add: defs)
  have d: "turn_loop 7 log_env log_conn True (station\<lparr>quitReceived := True\<rparr>) [Shaken] =
     Some ([], None, station\<lparr>quitReceived := True\<rparr>, [Shaken])"
    using Exchange_turn_order [THEN conjunct2, THEN conjunct2, THEN conjunct1, rule_format,
        where s' = "station\<lparr>quitReceived := True\<rparr>" and fuel = 7 and E = log_env
          and c = log_conn and myTurn = True and w' = "[Shaken]"]
    by (simp add: Done_def)
  from a obtain stats err s' w' where m:
    "Exchange (Suc 9) log_env (IsMaster station True) log_conn [] =
       Some ([Inbound, Outbound, Inbound], stats, err, s', w')"
    by (cases "Exchange (Suc 9) log_env (IsMaster station True) log_conn []") auto
  have e: "[Inbound, Outbound, Inbound] ! Suc 0 \<noteq> [Inbound, Outbound, Inbound] ! 0"
    using Exchange_turn_order [THEN conjunct2, THEN conjunct2, THEN conjunct2, THEN conjunct2,
        THEN conjunct2, THEN conjunct2, rule_format, OF conjI [OF m log_env_handshake_master]]
    by simp
  have f: "map_option fst (Exchange 2 log_env (IsMaster station True) log_conn []) =
       map_option fst (turn_loop 2 log_env log_conn (\<not> True) (IsMaster station True)
         [Prepared, Robust True, Shaken])"
    using Exchange_turn_order [THEN conjunct1, rule_format,
        where s = station and E = log_env and isMaster = True and w = "[]"
          and ?w1.0 = "[Prepared]" and c = log_conn and ?s3.0 = "IsMaster station True"
          and ?w3.0 = "[Prepared, Robust True, Shaken]" and fuel = 2]
    by (simp add: defs)
  have g: "turn_loop (Suc 3) log_env log_conn True station [Shaken] =
       map_option (\<lambda>(ts, r). (Outbound # ts, r))
         (turn_loop 3 log_env log_conn (\<not> True) station [Shaken, Offered])"
    using Exchange_turn_order [THEN conjunct2, THEN conjunct2, THEN conjunct2, THEN conjunct2,
        THEN conjunct1, rule_format,
        where s' = station and myTurn = True and E = log_env and c = log_conn and w' = "[Shaken]"
          and quit = False and ?s1.0 = station and w1' = "[Shaken, Offered]" and n = 3]
    by (simp add: defs)
  have run: "turn_loop 4 log_env log_conn True station [Shaken] =
      Some ([Outbound, Inbound, Outbound, Inbound], None,
        station\<lparr>quitReceived := True, remoteNoMsgs := True\<rparr>,
        [Shaken, Offered, Listened, Offered, Listened])"
    by (simp add: defs eval_nat_numeral)
  have h: "Done (station\<lparr>quitReceived := True, remoteNoMsgs := True\<rparr>)"
    using Exchange_turn_order [THEN conjunct2, THEN conjunct2, THEN conjunct2, THEN conjunct2,
        THEN conjunct2, THEN conjunct1, rule_format, OF run]
    by simp
  from a b c d e f g h show ?thesis
    by blast
qed

text \<open>
  Claim C2 as stated fails: in a session set up as master, with a handshake that
  succeeds, the first turn is inbound.
\<close>
theorem Exchange_master_first_turn_counterexample:
  "master (IsMaster station True)
   \<and> map_option fst (Exchange 10 log_env (IsMaster station True) log_conn []) =
       Some [Inbound, Outbound, Inbound]"
  by code_simp

text \<open>
  Claim C3.  Whichever step of \<^verbatim>\<open>Exchange\<close> fails with an error \<open>e\<close>, the result is the
  report of \<open>e\<close> that the specification describes (\<open>claimed_report\<close>): \<^verbatim>\<open>ErrConnLost\<close>
  and a close with nothing written when \<open>e\<close> is or wraps \<^verbatim>\<open>io.EOF\<close>, \<^verbatim>\<open>io.ErrUnexpectedEOF\<close>
  or \<^verbatim>\<open>net.ErrClosed\<close>; a deadline of one minute, the line \<^verbatim>\<open>*** \<close>, text, CR, LF, a close and
  \<open>e\<close> itself otherwise.  The steps, in order:
  \<^item> \<^verbatim>\<open>Prepare\<close> fails: no turn, zero statistics, the report made in the world \<^verbatim>\<open>Prepare\<close>
    left;
  \<^item> the handshake fails: the same, after the robust mode has been switched off;
  \<^item> the turn loop ends with an error: the turns taken and the statistics of the session,
    with the report;
  \<^item> the loop ends without error and the final \<^verbatim>\<open>Close\<close> fails: the report of that error;
  \<^item> the first turn after the handshake fails: it is the only turn, and its error is
    reported;
  \<^item> any turn that fails ends the loop with its error, and a turn that does not is followed
    by the rest of the loop, so that the error of a later turn reaches the end of the loop
    in the same way;
  \<^item> and whenever the body of \<^verbatim>\<open>Exchange\<close> ends with an error, that error is reported.
\<close>
theorem Exchange_error_report:
  "(\<not> Done s \<and> prepare_mbox (fw_aux_only E s w) w = (Some e, w1) \<longrightarrow>
      Exchange fuel E s c w =
        Some ([], zero_TrafficStats, fst (claimed_report E c e w1), fw_aux_only E s w,
              snd (claimed_report E c e w1)))
   \<and> (\<not> Done s \<and> prepare_mbox (fw_aux_only E s w) w = (None, w1)
       \<and> handshake E c (fw_aux_only E s w)
            (set_robust c (robustMode (fw_aux_only E s w) \<noteq> RobustDisabled) w1) = (Some e, s3, w3)
       \<longrightarrow>
      Exchange fuel E s c w =
        Some ([], zero_TrafficStats, fst (claimed_report E c e (set_robust c False w3)), s3,
              snd (claimed_report E c e (set_robust c False w3))))
   \<and> (\<not> Done s \<and> prepare_mbox (fw_aux_only E s w) w = (None, w1)
       \<and> handshake E c (fw_aux_only E s w)
            (set_robust c (robustMode (fw_aux_only E s w) \<noteq> RobustDisabled) w1) = (None, s3, w3)
       \<and> turn_loop fuel E c (\<not> master s3) s3 w3 = Some (ts, Some e, s4, w4) \<longrightarrow>
      Exchange fuel E s c w =
        Some (ts, trafficStats s4, fst (claimed_report E c e (set_robust c False w4)), s4,
              snd (claimed_report E c e (set_robust c False w4))))
   \<and> (\<not> Done s \<and> prepare_mbox (fw_aux_only E s w) w = (None, w1)
       \<and> handshake E c (fw_aux_only E s w)
            (set_robust c (robustMode (fw_aux_only E s w) \<noteq> RobustDisabled) w1) = (None, s3, w3)
       \<and> turn_loop fuel E c (\<not> master s3) s3 w3 = Some (ts, None, s4, w4)
       \<and> conn_Close c w4 = (Some e, w5) \<longrightarrow>
      Exchange fuel E s c w =
        Some (ts, trafficStats s4, fst (claimed_report E c e (set_robust c False w5)), s4,
              snd (claimed_report E c e (set_robust c False w5))))
   \<and> (\<not> Done s \<and> prepare_mbox (fw_aux_only E s w) w = (None, w1)
       \<and> handshake E c (fw_aux_only E s w)
            (set_robust c (robustMode (fw_aux_only E s w) \<noteq> RobustDisabled) w1) = (None, s3, w3)
       \<and> \<not> Done s3
       \<and> (if master s3 then handleInbound E c s3 w3 else handleOutbound E c s3 w3)
            = ((quit, Some e), sa, wa) \<longrightarrow>
      Exchange (Suc n) E s c w =
        Some ([if master s3 then Inbound else Outbound], trafficStats sa,
              fst (claimed_report E c e (set_robust c False wa)),
              (if master s3 then sa\<lparr>quitReceived := quit\<rparr> else sa\<lparr>quitSent := quit\<rparr>),
              snd (claimed_report E c e (set_robust c False wa))))
   \<and> (\<not> Done s' \<and>
       (if myTurn then handleOutbound E c s' w' else handleInbound E c s' w')
          = ((quit, Some e), s1, w1') \<longrightarrow>
      turn_loop (Suc n) E c myTurn s' w' =
        Some ([if myTurn then Outbound else Inbound], Some e,
              (if myTurn then s1\<lparr>quitSent := quit\<rparr> else s1\<lparr>quitReceived := quit\<rparr>), w1'))
   \<and> (\<not> Done s' \<and>
       (if myTurn then handleOutbound E c s' w' else handleInbound E c s' w')
          = ((quit, None), s1, w1') \<longrightarrow>
      turn_loop (Suc n) E c myTurn s' w' =
        map_option (\<lambda>(ts, r). ((if myTurn then Outbound else Inbound) # ts, r))
          (turn_loop n E c (\<not> myTurn)
             (if myTurn then s1\<lparr>quitSent := quit\<rparr> else s1\<lparr>quitReceived := quit\<rparr>) w1'))
   \<and> (\<not> Done s \<and> Exchange_body fuel E s c w = Some (d, ts, stats, Some e, sb, wb) \<longrightarrow>
      Exchange fuel E s c w =
        Some (ts, stats, fst (claimed_report E c e (if d then set_robust c False wb else wb)), sb,
              snd (claimed_report E c e (if d then set_robust c False wb else wb))))"
  using Exchange_Prepare_fails [of s E w e w1 fuel c]
    Exchange_handshake_fails [of s E w w1 c e s3 w3 fuel]
    Exchange_loop_fails [of s E w w1 c s3 w3 fuel ts e s4 w4]
    Exchange_Close_fails [of s E w w1 c s3 w3 fuel ts s4 w4 e w5]
    Exchange_first_turn_fails [of s E w w1 c s3 w3 quit e sa wa n]
    turn_loop_error [of s' myTurn E c w' quit e s1 w1' n]
    turn_loop_continue [of s' myTurn E c w' quit s1 w1' n]
    Exchange_body_fails [of s fuel E c w d ts stats e sb wb]
  by blast

theorem Exchange_error_report_witness:
  "Exchange 10 log_env (station\<lparr>handler := Some locked_mbox\<rparr>) log_conn [] =
     Some ([], zero_TrafficStats, Some (ErrorString ''Mailbox is locked''),
       station\<lparr>handler := Some locked_mbox\<rparr>,
       [Prepared, Deadline 61000000000,
        Wrote (''*** Mailbox is locked'' @ [CHR 0x0D, CHR 0x0A]), Closed])
   \<and> Exchange 10 log_env (station\<lparr>targetcall := []\<rparr>) log_conn [] =
     Some ([], zero_TrafficStats, Some ErrConnLost, station\<lparr>targetcall := []\<rparr>,
       [Prepared, Robust True, Shaken, Robust False, Closed])
   \<and> Exchange (Suc 9) deaf_env station log_conn [] =
     Some ([Outbound], \<lparr>Received = [''AAAAAAAAAAAA''], Sent = []\<rparr>,
       Some (ErrorString ''Unexpected response''), station,
       [Prepared, Robust True, Shaken, Offered, Robust False, Deadline 65000000000,
        Wrote (''*** Unexpected response'' @ [CHR 0x0D, CHR 0x0A]), Closed])
   \<and> Exchange 10 deaf_env (station\<lparr>master := True\<rparr>) log_conn [] =
     Some ([Inbound, Outbound], \<lparr>Received = [''AAAAAAAAAAAA''], Sent = []\<rparr>,
       Some (ErrorString ''Unexpected response''),
       station\<lparr>master := True, remoteNoMsgs := True\<rparr>,
       [Prepared, Robust True, Shaken, Listened, Offered, Robust False, Deadline 66000000000,
        Wrote (''*** Unexpected response'' @ [CHR 0x0D, CHR 0x0A]), Closed])
   \<and> Exchange 10 log_env station stuck_conn [] =
     Some ([Outbound, Inbound, Outbound, Inbound], \<lparr>Received = [''AAAAAAAAAAAA''], Sent = []\<rparr>,
       Some ErrConnLost, station\<lparr>quitReceived := True, remoteNoMsgs := True\<rparr>,
       [Prepared, Robust True, Shaken, Offered, Listened, Offered, Listened, Closed,
        Robust False, Closed])
   \<and> turn_loop (Suc 3) deaf_env log_conn True station [Shaken] =
     Some ([Outbound], Some (ErrorString ''Unexpected response''), station, [Shaken, Offered])
   \<and> turn_loop (Suc 3) deaf_env log_conn False station [Shaken] =
     map_option (\<lambda>(ts, r). (Inbound # ts, r))
       (turn_loop 3 deaf_env log_conn (\<not> False) (station\<lparr>remoteNoMsgs := True\<rparr>)
          [Shaken, Listened])
   \<and> Exchange 10 log_env (station\<lparr>locator := []\<rparr>) log_conn [] =
     Some ([], zero_TrafficStats, Some (ErrorString ''Invalid locator''), station\<lparr>locator := []\<rparr>,
       [Prepared, Robust True, Shaken, Robust False, Deadline 64000000000,
        Wrote (''*** Invalid locator'' @ [CHR 0x0D, CHR 0x0A]), Closed])"
proof -
  note defs = fw_aux_only_def prepare_mbox_def set_robust_def station_def log_env_def deaf_env_def
    log_conn_def stuck_conn_def log_mbox_def locked_mbox_def strconv_ParseBool_def Done_def
  note report = claimed_report_def Second_def
  have 1: "Exchange 10 log_env (station\<lparr>handler := Some locked_mbox\<rparr>) log_conn [] =
     Some ([], zero_TrafficStats, Some (ErrorString ''Mailbox is locked''),
       station\<lparr>handler := Some locked_mbox\<rparr>,
       [Prepared, Deadline 61000000000,
        Wrote (''*** Mailbox is locked'' @ [CHR 0x0D, CHR 0x0A]), Closed])"
    using Exchange_error_report [THEN conjunct1, rule_format,
        where s = "station\<lparr>handler := Some locked_mbox\<rparr>" and E = log_env and w = "[]"
          and e = "ErrorString ''Mailbox is locked''" and ?w1.0 = "[Prepared]" and fuel = 10
          and c = log_conn]
    by (simp add: defs report)
  have 2: "Exchange 10 log_env (station\<lparr>targetcall := []\<rparr>) log_conn [] =
     Some ([], zero_TrafficStats, Some ErrConnLost, station\<lparr>targetcall := []\<rparr>,
       [Prepared, Robust True, Shaken, Robust False, Closed])"
    using Exchange_error_report [THEN conjunct2, THEN conjunct1, rule_format,
        where s = "station\<lparr>targetcall := []\<rparr>" and E = log_env and w = "[]"
          and ?w1.0 = "[Prepared]" and c = log_conn and e = "Wrapped ''read: EOF'' io_EOF"
          and ?s3.0 = "station\<lparr>targetcall := []\<rparr>" and ?w3.0 = "[Prepared, Robust True, Shaken]"
          and fuel = 10]
    by (simp add: defs report)
  have 3: "Exchange (Suc 9) deaf_env station log_conn [] =
     Some ([Outbound], \<lparr>Received = [''AAAAAAAAAAAA''], Sent = []\<rparr>,
       Some (ErrorString ''Unexpected response''), station,
       [Prepared, Robust True, Shaken, Offered, Robust False, Deadline 65000000000,
        Wrote (''*** Unexpected response'' @ [CHR 0x0D, CHR 0x0A]), Closed])"
    using Exchange_error_report [THEN conjunct2, THEN conjunct2, THEN conjunct2, THEN conjunct2,
        THEN conjunct1, rule_format,
        where s = station and E = deaf_env and w = "[]" and ?w1.0 = "[Prepared]"
          and c = log_conn and ?s3.0 = station and ?w3.0 = "[Prepared, Robust True, Shaken]"
          and quit = False and e = "ErrorString ''Unexpected response''" and sa = station
          and wa = "[Prepared, Robust True, Shaken, Offered]" and n = 9]
    by (simp add: defs report)
  have step1: "turn_loop (Suc 9) deaf_env log_conn (\<not> master (station\<lparr>master := True\<rparr>))
      (station\<lparr>master := True\<rparr>) [Prepared, Robust True, Shaken] =
      map_option (\<lambda>(ts, r). (Inbound # ts, r))
        (turn_loop 9 deaf_env log_conn True (station\<lparr>master := True, remoteNoMsgs := True\<rparr>)
           [Prepared, Robust True, Shaken, Listened])"
    using Exchange_error_report [THEN conjunct2, THEN conjunct2, THEN conjunct2, THEN conjunct2,
        THEN conjunct2, THEN conjunct2, THEN conjunct1, rule_format,
        where s' = "station\<lparr>master := True\<rparr>" and myTurn = False and E = deaf_env
          and c = log_conn and w' = "[Prepared, Robust True, Shaken]" and quit = False
          and ?s1.0 = "station\<lparr>master := True, remoteNoMsgs := True\<rparr>"
          and w1' = "[Prepared, Robust True, Shaken, Listened]" and n = 9]
    by (simp add: defs)
  have step2: "turn_loop (Suc 8) deaf_env log_conn True
      (station\<lparr>master := True, remoteNoMsgs := True\<rparr>)
      [Prepared, Robust True, Shaken, Listened] =
      Some ([Outbound], Some (ErrorString ''Unexpected response''),
        station\<lparr>master := True, remoteNoMsgs := True\<rparr>,
        [Prepared, Robust True, Shaken, Listened, Offered])"
    using Exchange_error_report [THEN conjunct2, THEN conjunct2, THEN conjunct2, THEN conjunct2,
        THEN conjunct2, THEN conjunct1, rule_format,
        where s' = "station\<lparr>master := True, remoteNoMsgs := True\<rparr>" and myTurn = True
          and E = deaf_env and c = log_conn and w' = "[Prepared, Robust True, Shaken, Listened]"
          and quit = False and e = "ErrorString ''Unexpected response''"
          and ?s1.0 = "station\<lparr>master := True, remoteNoMsgs := True\<rparr>"
          and w1' = "[Prepared, Robust True, Shaken, Listened, Offered]" and n = 8]
    by (simp add: defs)
  have nine: "(9::nat) = Suc 8" and ten: "(10::nat) = Suc 9"
    by simp_all
  have loop4: "turn_loop 10 deaf_env log_conn (\<not> master (station\<lparr>master := True\<rparr>))
      (station\<lparr>master := True\<rparr>) [Prepared, Robust True, Shaken] =
      Some ([Inbound, Outbound], Some (ErrorString ''Unexpected response''),
        station\<lparr>master := True, remoteNoMsgs := True\<rparr>,
        [Prepared, Robust True, Shaken, Listened, Offered])"
    unfolding ten step1 unfolding nine step2 by simp
  have 4: "Exchange 10 deaf_env (station\<lparr>master := True\<rparr>) log_conn [] =
     Some ([Inbound, Outbound], \<lparr>Received = [''AAAAAAAAAAAA''], Sent = []\<rparr>,
       Some (ErrorString ''Unexpected response''),
       station\<lparr>master := True, remoteNoMsgs := True\<rparr>,
       [Prepared, Robust True, Shaken, Listened, Offered, Robust False, Deadline 66000000000,
        Wrote (''*** Unexpected response'' @ [CHR 0x0D, CHR 0x0A]), Closed])"
    using Exchange_error_report [THEN conjunct2, THEN conjunct2, THEN conjunct1, rule_format,
        where s = "station\<lparr>master := True\<rparr>" and E = deaf_env and w = "[]"
          and ?w1.0 = "[Prepared]" and c = log_conn and ?s3.0 = "station\<lparr>master := True\<rparr>"
          and ?w3.0 = "[Prepared, Robust True, Shaken]" and fuel = 10
          and ts = "[Inbound, Outbound]" and e = "ErrorString ''Unexpected response''"
          and ?s4.0 = "station\<lparr>master := True, remoteNoMsgs := True\<rparr>"
          and ?w4.0 = "[Prepared, Robust True, Shaken, Listened, Offered]"] loop4
    by (simp add: defs report)
  have loop5: "turn_loop 10 log_env stuck_conn (\<not> master station) station
      [Prepared, Robust True, Shaken] =
      Some ([Outbound, Inbound, Outbound, Inbound], None,
        station\<lparr>quitReceived := True, remoteNoMsgs := True\<rparr>,
        [Prepared, Robust True, Shaken, Offered, Listened, Offered, Listened])"
    by (simp add: defs eval_nat_numeral)
  have 5: "Exchange 10 log_env station stuck_conn [] =
     Some ([Outbound, Inbound, Outbound, Inbound], \<lparr>Received = [''AAAAAAAAAAAA''], Sent = []\<rparr>,
       Some ErrConnLost, station\<lparr>quitReceived := True, remoteNoMsgs := True\<rparr>,
       [Prepared, Robust True, Shaken, Offered, Listened, Offered, Listened, Closed,
        Robust False, Closed])"
    using Exchange_error_report [THEN conjunct2, THEN conjunct2, THEN conjunct2, THEN conjunct1,
        rule_format,
        where s = station and E = log_env and w = "[]" and ?w1.0 = "[Prepared]"
          and c = stuck_conn and ?s3.0 = station and ?w3.0 = "[Prepared, Robust True, Shaken]"
          and fuel = 10 and ts = "[Outbound, Inbound, Outbound, Inbound]"
          and ?s4.0 = "station\<lparr>quitReceived := True, remoteNoMsgs := True\<rparr>"
          and ?w4.0 = "[Prepared, Robust True, Shaken, Offered, Listened, Offered, Listened]"
          and e = "Wrapped ''close tcp'' net_ErrClosed"
          and ?w5.0 = "[Prepared, Robust True, Shaken, Offered, Listened, Offered, Listened, Closed]"]
      loop5
    by (simp add: defs report)
  have 6: "turn_loop (Suc 3) deaf_env log_conn True station [Shaken] =
     Some ([Outbound], Some (ErrorString ''Unexpected response''), station, [Shaken, Offered])"
    using Exchange_error_report [THEN conjunct2, THEN conjunct2, THEN conjunct2, THEN conjunct2,
        THEN conjunct2, THEN conjunct1, rule_format,
        where s' = station and myTurn = True and E = deaf_env and c = log_conn and w' = "[Shaken]"
          and quit = False and e = "ErrorString ''Unexpected response''" and ?s1.0 = station
          and w1' = "[Shaken, Offered]" and n = 3]
    by (simp add: defs)
  have 7: "turn_loop (Suc 3) deaf_env log_conn False station [Shaken] =
     map_option (\<lambda>(ts, r). (Inbound # ts, r))
       (turn_loop 3 deaf_env log_conn (\<not> False) (station\<lparr>remoteNoMsgs := True\<rparr>)
          [Shaken, Listened])"
    using Exchange_error_report [THEN conjunct2, THEN conjunct2, THEN conjunct2, THEN conjunct2,
        THEN conjunct2, THEN conjunct2, THEN conjunct1, rule_format,
        where s' = station and myTurn = False and E = deaf_env and c = log_conn and w' = "[Shaken]"
          and quit = False and ?s1.0 = "station\<lparr>remoteNoMsgs := True\<rparr>"
          and w1' = "[Shaken, Listened]" and n = 3]
    by (simp add: defs)
  have body: "Exchange_body 10 log_env (station\<lparr>locator := []\<rparr>) log_conn [] =
      Some (True, [], zero_TrafficStats, Some (ErrorString ''Invalid locator''),
        station\<lparr>locator := []\<rparr>, [Prepared, Robust True, Shaken])"
    by (simp add: Exchange_body_def defs)
  have 8: "Exchange 10 log_env (station\<lparr>locator := []\<rparr>) log_conn [] =
     Some ([], zero_TrafficStats, Some (ErrorString ''Invalid locator''), station\<lparr>locator := []\<rparr>,
       [Prepared, Robust True, Shaken, Robust False, Deadline 64000000000,
        Wrote (''*** Invalid locator'' @ [CHR 0x0D, CHR 0x0A]), Closed])"
    using Exchange_error_report [THEN conjunct2, THEN conjunct2, THEN conjunct2, THEN conjunct2,
        THEN conjunct2, THEN conjunct2, THEN conjunct2, rule_format,
        where s = "station\<lparr>locator := []\<rparr>" and fuel = 10 and E = log_env and c = log_conn
          and w = "[]" and d = True and ts = "[]" and stats = zero_TrafficStats
          and e = "ErrorString ''Invalid locator''" and sb = "station\<lparr>locator := []\<rparr>"
          and wb = "[Prepared, Robust True, Shaken]"] body
    by (simp add: defs report)
  from 1 2 3 4 5 6 7 8 show ?thesis
    by blast
qed

lemma Exchange_body_Done:
  assumes "Exchange_body fuel E s c w = Some (d, ts, stats, None, s', w')"
  shows "Done s'"
proof -
  obtain perr w1 where p: "prepare_mbox (fw_aux_only E s w) w = (perr, w1)"
    by (metis prod.exhaust)
  obtain herr s3 w3 where hs:
    "handshake E c (fw_aux_only E s w)
       (set_robust c (robustMode (fw_aux_only E s w) \<noteq> RobustDisabled) w1) = (herr, s3, w3)"
    by (metis prod.exhaust)
  from assms [unfolded Exchange_body_steps [OF p hs]]
  have "Exchange_turns fuel E c s3 w3 = Some (ts, stats, None, s', w')"
    by (auto split: if_splits)
  from Exchange_turns_alternating [OF this] show ?thesis by simp
qed

lemma Exchange_completed_Done:
  assumes "Exchange fuel E s c w = Some (ts, stats, None, s', w')"
  shows "Done s'"
proof (cases "Done s")
  case True
  with assms show ?thesis by (auto simp: Exchange_def)
next
  case False
  with assms obtain d e0 w0 where
    b: "Exchange_body fuel E s c w = Some (d, ts, stats, e0, s', w0)"
    and e: "None = fst (Exchange_deferred E c e0 (if d then set_robust c False w0 else w0))"
    by (auto simp: Exchange_def Let_def split: option.splits prod.splits)
  have "e0 = None"
    using e by (auto simp: Exchange_deferred_def Let_def split: option.splits if_splits)
  with b have "Exchange_body fuel E s c w = Some (d, ts, stats, None, s', w0)"
    by simp
  then show ?thesis
    by (rule Exchange_body_Done)
qed

text \<open>
  Claim C5.  On a session that is done, \<^verbatim>\<open>Exchange\<close> returns the zero statistics and a nil
  error, takes no turn, and leaves the session and the world as they were: no method of
  the connection or of the handler has run, whatever these methods are.  A session is done,
  in particular, when a call of \<^verbatim>\<open>Exchange\<close> on it has returned a nil error; the call that
  follows may be given any connection and any amount of fuel.
\<close>
theorem Exchange_done_noop:
  "(Done s \<longrightarrow> Exchange fuel E s c w = Some ([], zero_TrafficStats, None, s, w))
   \<and> (Exchange fuel E s c w = Some (ts, stats, None, s', w') \<longrightarrow>
        Exchange fuel2 E s' c2 w2 = Some ([], zero_TrafficStats, None, s', w2))"
proof -
  have "Exchange fuel2 E s' c2 w2 = Some ([], zero_TrafficStats, None, s', w2)"
    if "Exchange fuel E s c w = Some (ts, stats, None, s', w')"
    using Exchange_completed_Done [OF that] by (simp add: Exchange_def)
  then show ?thesis
    by (simp add: Exchange_def)
qed

theorem Exchange_done_noop_witness:
  "Exchange 4 log_env station log_conn [] =
     Some ([Outbound, Inbound, Outbound, Inbound], \<lparr>Received = [''AAAAAAAAAAAA''], Sent = []\<rparr>,
       None, station\<lparr>quitReceived := True, remoteNoMsgs := True\<rparr>,
       [Prepared, Robust True, Shaken, Offered, Listened, Offered, Listened, Closed,
        Robust False, Closed])
   \<and> Exchange 0 log_env (station\<lparr>quitReceived := True, remoteNoMsgs := True\<rparr>) log_conn
       [Prepared, Robust True, Shaken, Offered, Listened, Offered, Listened, Closed,
        Robust False, Closed] =
     Some ([], zero_TrafficStats, None, station\<lparr>quitReceived := True, remoteNoMsgs := True\<rparr>,
       [Prepared, Robust True, Shaken, Offered, Listened, Offered, Listened, Closed,
        Robust False, Closed])
   \<and> Done (station\<lparr>quitSent := True\<rparr>)
   \<and> Exchange 0 log_env (station\<lparr>quitSent := True\<rparr>) log_conn [] =
     Some ([], zero_TrafficStats, None, station\<lparr>quitSent := True\<rparr>, [])"
proof -
  have first: "Exchange 4 log_env station log_conn [] =
     Some ([Outbound, Inbound, Outbound, Inbound], \<lparr>Received = [''AAAAAAAAAAAA''], Sent = []\<rparr>,
       None, station\<lparr>quitReceived := True, remoteNoMsgs := True\<rparr>,
       [Prepared, Robust True, Shaken, Offered, Listened, Offered, Listened, Closed,
        Robust False, Closed])"
    by (simp add: Exchange_def Exchange_body_def Exchange_turns_def Exchange_deferred_def
        fw_aux_only_def prepare_mbox_def set_robust_def Done_def station_def log_env_def
        log_conn_def log_mbox_def strconv_ParseBool_def eval_nat_numeral)
  have d: "Done (station\<lparr>quitSent := True\<rparr>)"
    by (simp add: Done_def)
  show ?thesis
    using first d
      Exchange_done_noop [of "station\<lparr>quitSent := True\<rparr>" 0 log_env log_conn "[]"]
      Exchange_done_noop [of station 4 log_env log_conn "[]"
        "[Outbound, Inbound, Outbound, Inbound]" "\<lparr>Received = [''AAAAAAAAAAAA''], Sent = []\<rparr>"
        "station\<lparr>quitReceived := True, remoteNoMsgs := True\<rparr>"
        "[Prepared, Robust True, Shaken, Offered, Listened, Offered, Listened, Closed,
          Robust False, Closed]" 0 log_conn
        "[Prepared, Robust True, Shaken, Offered, Listened, Offered, Listened, Closed,
          Robust False, Closed]"]
    by simp
qed

end
